theory Spec2Isabelle
  imports Complex_Main "HOL-Library.Sublist"
begin

section \<open>JavaScript strings and values\<close>

text \<open>
  Strings are modelled as \<^typ>\<open>string\<close>, one \<^typ>\<open>char\<close> per ASCII character.
  \<open>String.prototype.toLowerCase\<close> is modelled on the ASCII letters \<open>A\<close> to \<open>Z\<close>;
  every other character is left unchanged.  Case mappings of characters outside ASCII are
  not part of the model.
\<close>

definition lower_char :: "char \<Rightarrow> char" where
  "lower_char c =
     (let n = (of_char c :: nat) in if 65 \<le> n \<and> n \<le> 90 then char_of (n + 32) else c)"

definition toLowerCase :: "string \<Rightarrow> string" where
  "toLowerCase s = map lower_char s"

text \<open>\<open>s.includes(p)\<close>: \<open>p\<close> occurs in \<open>s\<close> as a contiguous run of characters.\<close>

fun str_includes :: "string \<Rightarrow> string \<Rightarrow> bool" where
  "str_includes [] p = (p = [])"
| "str_includes (c # cs) p = (prefix p (c # cs) \<or> str_includes cs p)"

text \<open>
  Truthiness of an optional string (\<open>string | undefined\<close>): \<open>undefined\<close> and the empty
  string are falsy, every other string is truthy.
\<close>

definition truthy :: "string option \<Rightarrow> bool" where
  "truthy v = (case v of None \<Rightarrow> False | Some s \<Rightarrow> s \<noteq> [])"

section \<open>Statement status inference\<close>

datatype StatementStatus =
    running | resuming_warehouse | queued | blocked
  | success | failed_with_error | failed_with_incident | aborted

text \<open>
  \<open>message?.toLowerCase().includes(p)\<close>: \<open>undefined\<close> (falsy) when the message is
  \<open>undefined\<close>, otherwise the result of the substring test on the lower-cased message.
\<close>

definition messageIncludes :: "string option \<Rightarrow> string \<Rightarrow> bool" where
  "messageIncludes message p =
     (case message of None \<Rightarrow> False | Some m \<Rightarrow> str_includes (toLowerCase m) p)"

definition mapStatus :: "string option \<Rightarrow> string option \<Rightarrow> StatementStatus" where
  "mapStatus statusUrl message =
     (if messageIncludes message ''success'' \<or> (\<not> truthy statusUrl \<and> \<not> truthy message)
      then success
      else if truthy statusUrl then running
      else if messageIncludes message ''failed'' \<or> messageIncludes message ''error''
      then failed_with_error
      else success)"

section \<open>Untyped values\<close>

text \<open>
  General JavaScript values, as \<open>JSON.parse\<close> produces them (plus \<open>undefined\<close>, the
  value of a missing property).  An object is the list of its properties in source order;
  when a key is repeated the last occurrence is the one \<open>JSON.parse\<close> keeps.
\<close>

datatype jsval =
    JUndefined | JNull | JBool bool | JNum rat | JStr string
  | JArr "jsval list" | JObj "(string \<times> jsval) list"

fun js_truthy :: "jsval \<Rightarrow> bool" where
  "js_truthy JUndefined = False"
| "js_truthy JNull = False"
| "js_truthy (JBool b) = b"
| "js_truthy (JNum n) = (n \<noteq> 0)"
| "js_truthy (JStr s) = (s \<noteq> [])"
| "js_truthy (JArr xs) = True"
| "js_truthy (JObj kvs) = True"

text \<open>\<open>a || b\<close> on values.\<close>

definition js_or :: "jsval \<Rightarrow> jsval \<Rightarrow> jsval" where
  "js_or a b = (if js_truthy a then a else b)"

text \<open>
  The result of \<open>parseInt\<close>: \<open>NaN\<close> or an integer.  (The loss of precision of a double
  beyond \<open>2^53\<close> is not modelled.)
\<close>

datatype js_number = NaN | Num int

definition is_space :: "char \<Rightarrow> bool" where
  "is_space c = ((of_char c :: nat) \<in> {9, 10, 11, 12, 13, 32})"

definition is_digit :: "char \<Rightarrow> bool" where
  "is_digit c = (let n = (of_char c :: nat) in 48 \<le> n \<and> n \<le> 57)"

definition digit_val :: "char \<Rightarrow> int" where
  "digit_val c = int (of_char c) - 48"

definition digits_value :: "string \<Rightarrow> int" where
  "digits_value ds = foldl (\<lambda>a c. 10 * a + digit_val c) 0 ds"

text \<open>
  \<open>parseInt(s, 10)\<close>: leading white space is skipped, then an optional sign, then the
  longest run of decimal digits; with no digit there the result is \<open>NaN\<close>.
\<close>

definition parseInt10 :: "string \<Rightarrow> js_number" where
  "parseInt10 s =
     (let t = dropWhile is_space s;
          neg = (t \<noteq> [] \<and> hd t = CHR ''-'');
          u = (if t \<noteq> [] \<and> (hd t = CHR ''-'' \<or> hd t = CHR ''+'') then tl t else t);
          ds = takeWhile is_digit u
      in if ds = [] then NaN
         else Num (if neg then - digits_value ds else digits_value ds))"

text \<open>Decimal rendering of a status code inside a template string.\<close>

fun showNat :: "nat \<Rightarrow> string" where
  "showNat n =
     (if n < 10 then [''0123456789'' ! n]
      else showNat (n div 10) @ [''0123456789'' ! (n mod 10)])"

declare showNat.simps [simp del]

section \<open>Error taxonomy\<close>

text \<open>
  The classes of \<open>utils/errors\<close>.  One record holds the fields of the base class
  \<open>SnowflakeApiError\<close> and those the subclasses add (\<open>retryAfterSeconds\<close>, only set
  by \<open>RateLimitError\<close>; \<open>statementHandle\<close>, only set by \<open>StatementError\<close> and
  \<open>TimeoutError\<close>); \<open>err_name\<close> is the class.  Fields that the request helper fills
  from an untyped response body hold a \<^typ>\<open>jsval\<close>; \<open>err_message\<close> is the
  constructor's argument.
\<close>

record SnowflakeApiError =
  err_name :: string
  err_message :: jsval
  err_statusCode :: "nat option"
  err_code :: jsval
  err_retryable :: bool
  err_sqlState :: jsval
  err_retryAfterSeconds :: "js_number option"
  err_statementHandle :: jsval

definition newSnowflakeApiError ::
  "jsval \<Rightarrow> nat option \<Rightarrow> jsval \<Rightarrow> bool \<Rightarrow> jsval \<Rightarrow> SnowflakeApiError" where
  "newSnowflakeApiError message statusCode code retryable sqlState =
     \<lparr> err_name = ''SnowflakeApiError'',
       err_message = message,
       err_statusCode = statusCode,
       err_code = js_or code (JStr ''SNOWFLAKE_ERROR''),
       err_retryable = retryable,
       err_sqlState = sqlState,
       err_retryAfterSeconds = None,
       err_statementHandle = JUndefined \<rparr>"

definition RateLimitError :: "jsval \<Rightarrow> js_number \<Rightarrow> SnowflakeApiError" where
  "RateLimitError message retryAfterSeconds =
     (newSnowflakeApiError message (Some 429) (JStr ''RATE_LIMIT_EXCEEDED'') True JUndefined)
       \<lparr> err_name := ''RateLimitError'', err_retryAfterSeconds := Some retryAfterSeconds \<rparr>"

definition AuthenticationError :: "jsval \<Rightarrow> SnowflakeApiError" where
  "AuthenticationError message =
     (newSnowflakeApiError message (Some 401) (JStr ''AUTHENTICATION_FAILED'') False JUndefined)
       \<lparr> err_name := ''AuthenticationError'' \<rparr>"

definition StatementError :: "jsval \<Rightarrow> jsval \<Rightarrow> jsval \<Rightarrow> jsval \<Rightarrow> SnowflakeApiError" where
  "StatementError message statementHandle sqlState code =
     (newSnowflakeApiError message (Some 422) (js_or code (JStr ''STATEMENT_ERROR'')) False
        sqlState)
       \<lparr> err_name := ''StatementError'', err_statementHandle := statementHandle \<rparr>"

definition TimeoutError :: "jsval \<Rightarrow> jsval \<Rightarrow> SnowflakeApiError" where
  "TimeoutError message statementHandle =
     (newSnowflakeApiError message (Some 408) (JStr ''EXECUTION_TIMEOUT'') True JUndefined)
       \<lparr> err_name := ''TimeoutError'', err_statementHandle := statementHandle \<rparr>"

definition NotFoundError :: "string \<Rightarrow> string \<Rightarrow> SnowflakeApiError" where
  "NotFoundError entityType identifier =
     (newSnowflakeApiError (JStr (entityType @ '' '' @ [CHR 0x27] @ identifier @ [CHR 0x27]
          @ '' not found''))
        (Some 404) (JStr ''NOT_FOUND'') False JUndefined)
       \<lparr> err_name := ''NotFoundError'' \<rparr>"

text \<open>
  What a call can throw: a member of the taxonomy, a plain \<open>Error\<close> with its message,
  the \<open>TypeError\<close> of a property read on \<open>null\<close> or \<open>undefined\<close>, the
  \<open>SyntaxError\<close> of \<open>response.json()\<close> on a body that is not JSON, or the rejection
  of \<open>fetch\<close> itself.
\<close>

datatype js_error =
    ApiError SnowflakeApiError
  | PlainError string
  | TypeError
  | SyntaxError
  | FetchRejected

definition js_bind :: "js_error + 'a \<Rightarrow> ('a \<Rightarrow> js_error + 'b) \<Rightarrow> js_error + 'b" where
  "js_bind r f = (case r of Inl e \<Rightarrow> Inl e | Inr v \<Rightarrow> f v)"

text \<open>
  The property read \<open>v.key\<close>, for the keys read from a response body (\<open>message\<close>,
  \<open>statementHandle\<close>, \<open>sqlState\<close>, \<open>code\<close>, \<open>error\<close>; none of them is
  inherited from a prototype): it throws on \<open>null\<close> and \<open>undefined\<close>, finds the
  property of an object, and is \<open>undefined\<close> on every other value.
\<close>

fun getProp :: "jsval \<Rightarrow> string \<Rightarrow> js_error + jsval" where
  "getProp JUndefined key = Inl TypeError"
| "getProp JNull key = Inl TypeError"
| "getProp (JObj kvs) key =
     Inr (case map_of (rev kvs) key of None \<Rightarrow> JUndefined | Some v \<Rightarrow> v)"
| "getProp v key = Inr JUndefined"

section \<open>Credential context\<close>

record TenantCredentials =
  cred_account :: string
  cred_token :: string
  cred_warehouse :: "string option"
  cred_database :: "string option"
  cred_schema :: "string option"
  cred_role :: "string option"

text \<open>
  Request headers: \<open>Headers.get\<close> ignores the case of the header name, so the headers
  are a map from lower-cased names, and \<open>get\<close> lower-cases the name it is given;
  \<open>None\<close> is the \<open>null\<close> of an absent header.
\<close>

type_synonym Headers = "string \<rightharpoonup> string"

definition headers_get :: "Headers \<Rightarrow> string \<Rightarrow> string option" where
  "headers_get headers name = headers (toLowerCase name)"

text \<open>\<open>v || ''\<close> and \<open>v || undefined\<close> on an optional string.\<close>

definition or_empty :: "string option \<Rightarrow> string" where
  "or_empty v = (case v of None \<Rightarrow> [] | Some s \<Rightarrow> s)"

definition or_undefined :: "string option \<Rightarrow> string option" where
  "or_undefined v = (if truthy v then v else None)"

definition parseTenantCredentials :: "Headers \<Rightarrow> TenantCredentials" where
  "parseTenantCredentials headers =
     \<lparr> cred_account = or_empty (headers_get headers ''X-Snowflake-Account''),
       cred_token = or_empty (headers_get headers ''X-Snowflake-Token''),
       cred_warehouse = or_undefined (headers_get headers ''X-Snowflake-Warehouse''),
       cred_database = or_undefined (headers_get headers ''X-Snowflake-Database''),
       cred_schema = or_undefined (headers_get headers ''X-Snowflake-Schema''),
       cred_role = or_undefined (headers_get headers ''X-Snowflake-Role'') \<rparr>"

definition validateCredentials :: "TenantCredentials \<Rightarrow> js_error + unit" where
  "validateCredentials credentials =
     (if cred_account credentials = [] then
        Inl (PlainError
          ''Missing X-Snowflake-Account header. Provide your Snowflake account identifier.'')
      else if cred_token credentials = [] then
        Inl (PlainError
          ''Missing X-Snowflake-Token header. Provide your JWT token for authentication.'')
      else Inr ())"

text \<open>
  The worker's handler parses the headers and then validates the result; the credentials
  are used only when validation did not throw.
\<close>

definition extractCredentials :: "Headers \<Rightarrow> js_error + TenantCredentials" where
  "extractCredentials headers =
     (let credentials = parseTenantCredentials headers
      in js_bind (validateCredentials credentials) (\<lambda>_. Inr credentials))"

section \<open>Transport layer\<close>

record BindVariable =
  bind_type :: string
  bind_value :: string

record StatementRequest =
  req_statement :: string
  req_timeout :: "int option"
  req_database :: "string option"
  req_schema :: "string option"
  req_warehouse :: "string option"
  req_role :: "string option"
  req_bindings :: "(string \<times> BindVariable) list option"
  req_parameters :: "(string \<times> string) list option"

text \<open>
  The object that \<open>executeStatement\<close> builds and hands to \<open>JSON.stringify\<close>: the
  properties \<open>statement\<close> and \<open>timeout\<close> are always set, each of the others only under
  its guard; \<open>None\<close> is a property that was never set.
\<close>

record StatementBody =
  body_statement :: string
  body_timeout :: int
  body_database :: "string option"
  body_schema :: "string option"
  body_warehouse :: "string option"
  body_role :: "string option"
  body_bindings :: "(string \<times> BindVariable) list option"
  body_parameters :: "(string \<times> string) list option"

record http_request =
  hreq_url :: string
  hreq_method :: "string option"
  hreq_headers :: "(string \<times> string) list"
  hreq_body :: "StatementBody option"

text \<open>
  A response, as far as the request helper reads it: the status, the \<open>Retry-After\<close>
  header, the body parsed as JSON (\<open>None\<close> when it is not JSON), which the error paths
  inspect, and the same parsed body seen at the type the caller's cast asserts, which the
  success path returns.
\<close>

record 'a http_response =
  resp_status :: nat
  resp_retryAfter :: "string option"
  resp_json :: "jsval option"
  resp_payload :: "'a option"

definition response_ok :: "'a http_response \<Rightarrow> bool" where
  "response_ok response = (200 \<le> resp_status response \<and> resp_status response \<le> 299)"

definition baseUrl :: "TenantCredentials \<Rightarrow> string" where
  "baseUrl credentials =
     ''https://'' @ cred_account credentials @ ''.snowflakecomputing.com/api/v2''"

definition getAuthHeaders :: "TenantCredentials \<Rightarrow> (string \<times> string) list" where
  "getAuthHeaders credentials =
     [(''Authorization'', ''Bearer '' @ cred_token credentials),
      (''Content-Type'', ''application/json''),
      (''Accept'', ''application/json''),
      (''X-Snowflake-Authorization-Token-Type'', ''KEYPAIR_JWT''),
      (''User-Agent'', ''primrose-mcp-snowflake/1.0.0'')]"

text \<open>
  \<open>new URLSearchParams(queryParams).toString()\<close>, for keys and values that need no
  escaping (the client only sends \<open>async=true\<close> and \<open>partition=<n>\<close>).
\<close>

fun searchParams :: "(string \<times> string) list \<Rightarrow> string" where
  "searchParams [] = []"
| "searchParams [(k, v)] = k @ ''='' @ v"
| "searchParams ((k, v) # kvs) = k @ ''='' @ v @ ''&'' @ searchParams kvs"

text \<open>
  The message of the last error branch of \<open>request\<close>: the default names the status;
  when the body parses as JSON, its \<open>message\<close>, else its \<open>error\<close>, replaces the
  default if truthy; a failure of the parse or of the property reads (inside the
  \<open>try\<close>) keeps the default.
\<close>

definition errorMessage :: "'a http_response \<Rightarrow> jsval" where
  "errorMessage response =
     (let message = JStr (''Snowflake API error: '' @ showNat (resp_status response))
      in case resp_json response of
           None \<Rightarrow> message
         | Some errorJson \<Rightarrow>
             (case getProp errorJson ''message'' of
                Inl _ \<Rightarrow> message
              | Inr m \<Rightarrow>
                  if js_truthy m then m
                  else (case getProp errorJson ''error'' of
                          Inl _ \<Rightarrow> message
                        | Inr e \<Rightarrow> js_or e message)))"

text \<open>The part of \<open>request\<close> that follows the \<open>fetch\<close>: the classification of the response.\<close>

definition classifyResponse :: "'a http_response \<Rightarrow> js_error + 'a" where
  "classifyResponse response =
     (if resp_status response = 429 then
        Inl (ApiError (RateLimitError (JStr ''Rate limit exceeded'')
          (case resp_retryAfter response of
             None \<Rightarrow> Num 60
           | Some retryAfter \<Rightarrow> if retryAfter \<noteq> [] then parseInt10 retryAfter else Num 60)))
      else if resp_status response = 401 \<or> resp_status response = 403 then
        Inl (ApiError (AuthenticationError
          (JStr ''Authentication failed. Check your Snowflake account and JWT token.'')))
      else if resp_status response = 408 then
        (let body = (case resp_json response of None \<Rightarrow> JObj [] | Some b \<Rightarrow> b)
         in js_bind (getProp body ''message'') (\<lambda>message.
            js_bind (getProp body ''statementHandle'') (\<lambda>statementHandle.
              Inl (ApiError (TimeoutError
                (js_or message (JStr ''Statement execution timed out''))
                statementHandle)))))
      else if resp_status response = 422 then
        (let body = (case resp_json response of None \<Rightarrow> JObj [] | Some b \<Rightarrow> b)
         in js_bind (getProp body ''message'') (\<lambda>message.
            js_bind (getProp body ''statementHandle'') (\<lambda>statementHandle.
            js_bind (getProp body ''sqlState'') (\<lambda>sqlState.
            js_bind (getProp body ''code'') (\<lambda>code.
              Inl (ApiError (StatementError
                (js_or message (JStr ''Statement execution failed''))
                statementHandle sqlState code)))))))
      else if \<not> response_ok response then
        Inl (ApiError (newSnowflakeApiError (errorMessage response)
               (Some (resp_status response)) JUndefined False JUndefined))
      else (case resp_payload response of None \<Rightarrow> Inl SyntaxError | Some v \<Rightarrow> Inr v))"

text \<open>
  \<open>request\<close>, with the network as a parameter: \<open>fetch\<close> maps the request that is sent
  to the response that arrives, or to \<open>None\<close> when the promise rejects.
\<close>

definition request ::
  "TenantCredentials \<Rightarrow> (http_request \<Rightarrow> 'a http_response option) \<Rightarrow> string \<Rightarrow>
   string option \<Rightarrow> StatementBody option \<Rightarrow> (string \<times> string) list option \<Rightarrow> js_error + 'a" where
  "request credentials fetch endpoint method body queryParams =
     (let url0 = baseUrl credentials @ endpoint;
          url = (case queryParams of
                   None \<Rightarrow> url0
                 | Some params \<Rightarrow> url0 @ ''?'' @ searchParams params)
      in case fetch \<lparr> hreq_url = url, hreq_method = method,
                      hreq_headers = getAuthHeaders credentials, hreq_body = body \<rparr> of
           None \<Rightarrow> Inl FetchRejected
         | Some response \<Rightarrow> classifyResponse response)"

section \<open>Statement lifecycle\<close>

record PartitionInfo =
  part_rowCount :: int
  part_uncompressedSize :: "int option"
  part_compressedSize :: "int option"

record QueryStats =
  stats_numRowsScanned :: "int option"
  stats_numRowsInserted :: "int option"
  stats_numRowsUpdated :: "int option"
  stats_numRowsDeleted :: "int option"
  stats_numDuplicateRowsUpdated :: "int option"
  stats_elapsedTimeMs :: "int option"

text \<open>The wire format (\<open>SnowflakeStatementResponse\<close>).\<close>

record ResponseColumn =
  rc_name :: string
  rc_type :: string
  rc_database :: "string option"
  rc_schema :: "string option"
  rc_table :: "string option"
  rc_nullable :: "bool option"
  rc_byteLength :: "int option"
  rc_precision :: "int option"
  rc_scale :: "int option"
  rc_collation :: "string option"

record ResponseMetaData =
  rmd_numRows :: int
  rmd_format :: "string option"
  rmd_partitionInfo :: "PartitionInfo list option"
  rmd_rowType :: "ResponseColumn list"

record SnowflakeStatementResponse =
  sr_statementHandle :: string
  sr_statementStatusUrl :: "string option"
  sr_message :: "string option"
  sr_sqlState :: "string option"
  sr_code :: "string option"
  sr_resultSetMetaData :: "ResponseMetaData option"
  sr_data :: "string list list option"
  sr_stats :: "QueryStats option"

text \<open>The client's own types (\<open>types/entities\<close>).\<close>

record ColumnMetaData =
  cmd_name :: string
  cmd_type :: string
  cmd_database :: "string option"
  cmd_schema :: "string option"
  cmd_table :: "string option"
  cmd_nullable :: bool
  cmd_byteLength :: "int option"
  cmd_precision :: "int option"
  cmd_scale :: "int option"
  cmd_collation :: "string option"

record ResultSetMetaData =
  md_numRows :: int
  md_format :: "string option"
  md_partitionInfo :: "PartitionInfo list option"
  md_rowType :: "ColumnMetaData list"

record StatementResult =
  res_statementHandle :: string
  res_status :: StatementStatus
  res_resultSetMetaData :: "ResultSetMetaData option"
  res_data :: "string list list option"
  res_stats :: "QueryStats option"
  res_statementStatusUrl :: "string option"
  res_message :: "string option"
  res_sqlState :: "string option"
  res_code :: "string option"

record 'a PaginatedResponse =
  pr_items :: "'a list"
  pr_count :: nat
  pr_total :: "int option"
  pr_hasMore :: bool
  pr_nextPartition :: "int option"

definition mapColumn :: "ResponseColumn \<Rightarrow> ColumnMetaData" where
  "mapColumn col =
     \<lparr> cmd_name = rc_name col,
       cmd_type = rc_type col,
       cmd_database = rc_database col,
       cmd_schema = rc_schema col,
       cmd_table = rc_table col,
       cmd_nullable = (case rc_nullable col of None \<Rightarrow> True | Some b \<Rightarrow> b),
       cmd_byteLength = rc_byteLength col,
       cmd_precision = rc_precision col,
       cmd_scale = rc_scale col,
       cmd_collation = rc_collation col \<rparr>"

definition mapStatementResponse :: "SnowflakeStatementResponse \<Rightarrow> StatementResult" where
  "mapStatementResponse response =
     \<lparr> res_statementHandle = sr_statementHandle response,
       res_status = mapStatus (sr_statementStatusUrl response) (sr_message response),
       res_resultSetMetaData =
         (case sr_resultSetMetaData response of
            None \<Rightarrow> None
          | Some m \<Rightarrow>
              Some \<lparr> md_numRows = rmd_numRows m,
                     md_format = rmd_format m,
                     md_partitionInfo = rmd_partitionInfo m,
                     md_rowType = map mapColumn (rmd_rowType m) \<rparr>),
       res_data = sr_data response,
       res_stats = sr_stats response,
       res_statementStatusUrl = sr_statementStatusUrl response,
       res_message = sr_message response,
       res_sqlState = sr_sqlState response,
       res_code = sr_code response \<rparr>"

text \<open>\<open>a || b\<close> on optional strings, and \<open>t || 60\<close> on an optional number.\<close>

definition opt_or :: "string option \<Rightarrow> string option \<Rightarrow> string option" where
  "opt_or a b = (if truthy a then a else b)"

definition timeout_or :: "int option \<Rightarrow> int \<Rightarrow> int" where
  "timeout_or t d = (case t of None \<Rightarrow> d | Some n \<Rightarrow> if n \<noteq> 0 then n else d)"

text \<open>
  The request bodies.  The two functions build their body with the same statements, each
  in its own text; both are kept.
\<close>

definition executeStatement_body :: "TenantCredentials \<Rightarrow> StatementRequest \<Rightarrow> StatementBody" where
  "executeStatement_body credentials req =
     \<lparr> body_statement = req_statement req,
       body_timeout = timeout_or (req_timeout req) 60,
       body_database =
         (if truthy (opt_or (req_database req) (cred_database credentials))
          then opt_or (req_database req) (cred_database credentials) else None),
       body_schema =
         (if truthy (opt_or (req_schema req) (cred_schema credentials))
          then opt_or (req_schema req) (cred_schema credentials) else None),
       body_warehouse =
         (if truthy (opt_or (req_warehouse req) (cred_warehouse credentials))
          then opt_or (req_warehouse req) (cred_warehouse credentials) else None),
       body_role =
         (if truthy (opt_or (req_role req) (cred_role credentials))
          then opt_or (req_role req) (cred_role credentials) else None),
       body_bindings = req_bindings req,
       body_parameters = req_parameters req \<rparr>"

definition executeStatementAsync_body ::
  "TenantCredentials \<Rightarrow> StatementRequest \<Rightarrow> StatementBody" where
  "executeStatementAsync_body credentials req =
     \<lparr> body_statement = req_statement req,
       body_timeout = timeout_or (req_timeout req) 60,
       body_database =
         (if truthy (opt_or (req_database req) (cred_database credentials))
          then opt_or (req_database req) (cred_database credentials) else None),
       body_schema =
         (if truthy (opt_or (req_schema req) (cred_schema credentials))
          then opt_or (req_schema req) (cred_schema credentials) else None),
       body_warehouse =
         (if truthy (opt_or (req_warehouse req) (cred_warehouse credentials))
          then opt_or (req_warehouse req) (cred_warehouse credentials) else None),
       body_role =
         (if truthy (opt_or (req_role req) (cred_role credentials))
          then opt_or (req_role req) (cred_role credentials) else None),
       body_bindings = req_bindings req,
       body_parameters = req_parameters req \<rparr>"

type_synonym network = "http_request \<Rightarrow> SnowflakeStatementResponse http_response option"

definition executeStatement ::
  "TenantCredentials \<Rightarrow> network \<Rightarrow> StatementRequest \<Rightarrow> js_error + StatementResult" where
  "executeStatement credentials fetch req =
     js_bind
       (request credentials fetch ''/statements'' (Some ''POST'')
          (Some (executeStatement_body credentials req)) None)
       (\<lambda>response. Inr (mapStatementResponse response))"

definition executeStatementAsync ::
  "TenantCredentials \<Rightarrow> network \<Rightarrow> StatementRequest \<Rightarrow> js_error + StatementResult" where
  "executeStatementAsync credentials fetch req =
     js_bind
       (request credentials fetch ''/statements'' (Some ''POST'')
          (Some (executeStatementAsync_body credentials req)) (Some [(''async'', ''true'')]))
       (\<lambda>response. Inr (mapStatementResponse response))"

section \<open>Row mapping engine\<close>

record Database =
  db_name :: string
  db_createdOn :: "string option"
  db_origin :: "string option"
  db_owner :: "string option"
  db_comment :: "string option"
  db_options :: "string option"
  db_retentionTime :: "string option"
  db_resourceGroup :: "string option"
  db_droppedOn :: "string option"
  db_kind :: "string option"

record Schema =
  sc_name :: string
  sc_databaseName :: "string option"
  sc_createdOn :: "string option"
  sc_owner :: "string option"
  sc_comment :: "string option"
  sc_options :: "string option"
  sc_retentionTime :: "string option"
  sc_droppedOn :: "string option"

record Table =
  tb_name :: string
  tb_databaseName :: "string option"
  tb_schemaName :: "string option"
  tb_kind :: "string option"
  tb_createdOn :: "string option"
  tb_owner :: "string option"
  tb_comment :: "string option"
  tb_clusterBy :: "string option"
  tb_rows :: "js_number option"
  tb_bytes :: "js_number option"
  tb_retentionTime :: "string option"
  tb_automaticClustering :: "string option"
  tb_changeTracking :: "string option"
  tb_isExternal :: "string option"
  tb_searchOptimization :: "string option"
  tb_searchOptimizationProgress :: "string option"
  tb_searchOptimizationBytes :: "string option"
  tb_droppedOn :: "string option"

record View =
  vw_name :: string
  vw_databaseName :: "string option"
  vw_schemaName :: "string option"
  vw_createdOn :: "string option"
  vw_owner :: "string option"
  vw_comment :: "string option"
  vw_text :: "string option"
  vw_isSecure :: "string option"
  vw_isMaterialized :: "string option"
  vw_droppedOn :: "string option"

record Column =
  col_name :: string
  col_type :: string
  col_kind :: "string option"
  col_nullable :: bool
  col_default :: "string option"
  col_primaryKey :: "bool option"
  col_uniqueKey :: "bool option"
  col_check :: "string option"
  col_expression :: "string option"
  col_comment :: "string option"
  col_policyName :: "string option"
  col_privacyDomain :: "string option"

record Warehouse =
  wh_name :: string
  wh_state :: string
  wh_type :: "string option"
  wh_size :: "string option"
  wh_minClusterCount :: "js_number option"
  wh_maxClusterCount :: "js_number option"
  wh_startedClusters :: "js_number option"
  wh_running :: "js_number option"
  wh_queued :: "js_number option"
  wh_isDefault :: "bool option"
  wh_isCurrent :: "bool option"
  wh_autoSuspend :: "js_number option"
  wh_autoResume :: "bool option"
  wh_available :: "string option"
  wh_provisioning :: "string option"
  wh_quiescing :: "string option"
  wh_other :: "string option"
  wh_createdOn :: "string option"
  wh_resumedOn :: "string option"
  wh_updatedOn :: "string option"
  wh_owner :: "string option"
  wh_comment :: "string option"
  wh_enableQueryAcceleration :: "bool option"
  wh_queryAccelerationMaxScaleFactor :: "js_number option"
  wh_resourceMonitor :: "string option"
  wh_scalingPolicy :: "string option"

text \<open>
  \<open>map[key] = index\<close> on the plain object that holds the column map.  Every key becomes
  a property of the object, except \<open>__proto__\<close>: that assignment reaches the setter of
  \<open>Object.prototype\<close>, which ignores a number, and the object is left as it was.
\<close>

definition setKey :: "(string \<rightharpoonup> nat) \<Rightarrow> string \<Rightarrow> nat \<Rightarrow> (string \<rightharpoonup> nat)" where
  "setKey m key index = (if key = ''__proto__'' then m else m(key \<mapsto> index))"

text \<open>The \<open>forEach\<close> of \<open>buildColumnMap\<close>, from position \<open>index\<close> on.\<close>

fun buildColumnMap_from ::
  "nat \<Rightarrow> ColumnMetaData list \<Rightarrow> (string \<rightharpoonup> nat) \<Rightarrow> (string \<rightharpoonup> nat)" where
  "buildColumnMap_from index [] m = m"
| "buildColumnMap_from index (col # cols) m =
     buildColumnMap_from (Suc index) cols (setKey m (toLowerCase (cmd_name col)) index)"

definition buildColumnMap :: "ColumnMetaData list \<Rightarrow> (string \<rightharpoonup> nat)" where
  "buildColumnMap rowType = buildColumnMap_from 0 rowType Map.empty"

text \<open>
  \<open>row[i]\<close>: the cell when \<open>i\<close> is a position of the row, \<open>undefined\<close> otherwise
  (so for \<open>-1\<close> and for every position past the end).
\<close>

definition js_index :: "'a list \<Rightarrow> int \<Rightarrow> 'a option" where
  "js_index xs i = (if 0 \<le> i \<and> i < int (length xs) then Some (xs ! nat i) else None)"

text \<open>
  \<open>row[columnMap.key ?? fallback]\<close>, the expression every mapped field starts from (the
  keys read are fixed identifiers, none of them \<open>__proto__\<close>).
\<close>

definition cell :: "string list \<Rightarrow> (string \<rightharpoonup> nat) \<Rightarrow> string \<Rightarrow> int \<Rightarrow> string option" where
  "cell row columnMap key fallback =
     js_index row (case columnMap key of None \<Rightarrow> fallback | Some i \<Rightarrow> int i)"

text \<open>\<open>v || d\<close> for a cell \<open>v\<close> and a string \<open>d\<close> (\<open>v || ''\<close> is \<open>or_empty\<close>).\<close>

definition or_string :: "string option \<Rightarrow> string \<Rightarrow> string" where
  "or_string v d = (case v of None \<Rightarrow> d | Some s \<Rightarrow> if s \<noteq> [] then s else d)"

text \<open>\<open>v ? parseInt(v, 10) : undefined\<close> and \<open>v?.toLowerCase() === lit\<close>.\<close>

definition parseIntCell :: "string option \<Rightarrow> js_number option" where
  "parseIntCell v =
     (case v of None \<Rightarrow> None | Some s \<Rightarrow> if s \<noteq> [] then Some (parseInt10 s) else None)"

definition cellIs :: "string option \<Rightarrow> string \<Rightarrow> bool" where
  "cellIs v lit = (case v of None \<Rightarrow> False | Some s \<Rightarrow> toLowerCase s = lit)"

text \<open>The object literal \<open>{ items: [], count: 0, hasMore: false }\<close>.\<close>

definition emptyPage :: "'a PaginatedResponse" where
  "emptyPage =
     \<lparr> pr_items = [], pr_count = 0, pr_total = None, pr_hasMore = False,
       pr_nextPartition = None \<rparr>"

text \<open>
  The arrow functions that map one row, then the mappers.  A field of the entity type that
  the object literal does not mention is \<open>None\<close>.
\<close>

definition databaseOfRow :: "(string \<rightharpoonup> nat) \<Rightarrow> string list \<Rightarrow> Database" where
  "databaseOfRow columnMap row =
     \<lparr> db_name = or_empty (cell row columnMap ''name'' 0),
       db_createdOn = cell row columnMap ''created_on'' 1,
       db_origin = cell row columnMap ''origin'' (-1),
       db_owner = cell row columnMap ''owner'' (-1),
       db_comment = cell row columnMap ''comment'' (-1),
       db_options = cell row columnMap ''options'' (-1),
       db_retentionTime = cell row columnMap ''retention_time'' (-1),
       db_resourceGroup = cell row columnMap ''resource_group'' (-1),
       db_droppedOn = None,
       db_kind = cell row columnMap ''kind'' (-1) \<rparr>"

definition schemaOfRow :: "(string \<rightharpoonup> nat) \<Rightarrow> string \<Rightarrow> string list \<Rightarrow> Schema" where
  "schemaOfRow columnMap database row =
     \<lparr> sc_name = or_empty (cell row columnMap ''name'' 0),
       sc_databaseName = Some database,
       sc_createdOn = cell row columnMap ''created_on'' (-1),
       sc_owner = cell row columnMap ''owner'' (-1),
       sc_comment = cell row columnMap ''comment'' (-1),
       sc_options = cell row columnMap ''options'' (-1),
       sc_retentionTime = cell row columnMap ''retention_time'' (-1),
       sc_droppedOn = None \<rparr>"

definition tableOfRow :: "(string \<rightharpoonup> nat) \<Rightarrow> string \<Rightarrow> string \<Rightarrow> string list \<Rightarrow> Table" where
  "tableOfRow columnMap database schema row =
     \<lparr> tb_name = or_empty (cell row columnMap ''name'' 0),
       tb_databaseName = Some database,
       tb_schemaName = Some schema,
       tb_kind = cell row columnMap ''kind'' (-1),
       tb_createdOn = cell row columnMap ''created_on'' (-1),
       tb_owner = cell row columnMap ''owner'' (-1),
       tb_comment = cell row columnMap ''comment'' (-1),
       tb_clusterBy = cell row columnMap ''cluster_by'' (-1),
       tb_rows = parseIntCell (cell row columnMap ''rows'' (-1)),
       tb_bytes = parseIntCell (cell row columnMap ''bytes'' (-1)),
       tb_retentionTime = cell row columnMap ''retention_time'' (-1),
       tb_automaticClustering = cell row columnMap ''automatic_clustering'' (-1),
       tb_changeTracking = cell row columnMap ''change_tracking'' (-1),
       tb_isExternal = cell row columnMap ''is_external'' (-1),
       tb_searchOptimization = None,
       tb_searchOptimizationProgress = None,
       tb_searchOptimizationBytes = None,
       tb_droppedOn = None \<rparr>"

definition viewOfRow :: "(string \<rightharpoonup> nat) \<Rightarrow> string \<Rightarrow> string \<Rightarrow> string list \<Rightarrow> View" where
  "viewOfRow columnMap database schema row =
     \<lparr> vw_name = or_empty (cell row columnMap ''name'' 0),
       vw_databaseName = Some database,
       vw_schemaName = Some schema,
       vw_createdOn = cell row columnMap ''created_on'' (-1),
       vw_owner = cell row columnMap ''owner'' (-1),
       vw_comment = cell row columnMap ''comment'' (-1),
       vw_text = cell row columnMap ''text'' (-1),
       vw_isSecure = cell row columnMap ''is_secure'' (-1),
       vw_isMaterialized = cell row columnMap ''is_materialized'' (-1),
       vw_droppedOn = None \<rparr>"

definition columnOfRow :: "(string \<rightharpoonup> nat) \<Rightarrow> string list \<Rightarrow> Column" where
  "columnOfRow columnMap row =
     \<lparr> col_name = or_empty (cell row columnMap ''name'' 0),
       col_type = or_empty (cell row columnMap ''type'' 1),
       col_kind = cell row columnMap ''kind'' (-1),
       col_nullable = cellIs (cell row columnMap ''null'' (-1)) ''y'',
       col_default = cell row columnMap ''default'' (-1),
       col_primaryKey = Some (cellIs (cell row columnMap ''primary_key'' (-1)) ''y''),
       col_uniqueKey = Some (cellIs (cell row columnMap ''unique_key'' (-1)) ''y''),
       col_check = cell row columnMap ''check'' (-1),
       col_expression = cell row columnMap ''expression'' (-1),
       col_comment = cell row columnMap ''comment'' (-1),
       col_policyName = cell row columnMap ''policy_name'' (-1),
       col_privacyDomain = None \<rparr>"

definition warehouseOfRow :: "(string \<rightharpoonup> nat) \<Rightarrow> string list \<Rightarrow> Warehouse" where
  "warehouseOfRow columnMap row =
     \<lparr> wh_name = or_empty (cell row columnMap ''name'' 0),
       wh_state = or_string (cell row columnMap ''state'' 1) ''SUSPENDED'',
       wh_type = cell row columnMap ''type'' (-1),
       wh_size = cell row columnMap ''size'' (-1),
       wh_minClusterCount = parseIntCell (cell row columnMap ''min_cluster_count'' (-1)),
       wh_maxClusterCount = parseIntCell (cell row columnMap ''max_cluster_count'' (-1)),
       wh_startedClusters = parseIntCell (cell row columnMap ''started_clusters'' (-1)),
       wh_running = parseIntCell (cell row columnMap ''running'' (-1)),
       wh_queued = parseIntCell (cell row columnMap ''queued'' (-1)),
       wh_isDefault = Some (cellIs (cell row columnMap ''is_default'' (-1)) ''y''),
       wh_isCurrent = Some (cellIs (cell row columnMap ''is_current'' (-1)) ''y''),
       wh_autoSuspend = parseIntCell (cell row columnMap ''auto_suspend'' (-1)),
       wh_autoResume = Some (cellIs (cell row columnMap ''auto_resume'' (-1)) ''true''),
       wh_available = cell row columnMap ''available'' (-1),
       wh_provisioning = cell row columnMap ''provisioning'' (-1),
       wh_quiescing = cell row columnMap ''quiescing'' (-1),
       wh_other = cell row columnMap ''other'' (-1),
       wh_createdOn = cell row columnMap ''created_on'' (-1),
       wh_resumedOn = cell row columnMap ''resumed_on'' (-1),
       wh_updatedOn = cell row columnMap ''updated_on'' (-1),
       wh_owner = cell row columnMap ''owner'' (-1),
       wh_comment = cell row columnMap ''comment'' (-1),
       wh_enableQueryAcceleration = None,
       wh_queryAccelerationMaxScaleFactor = None,
       wh_resourceMonitor = cell row columnMap ''resource_monitor'' (-1),
       wh_scalingPolicy = cell row columnMap ''scaling_policy'' (-1) \<rparr>"

definition mapShowResultToDatabases :: "StatementResult \<Rightarrow> Database PaginatedResponse" where
  "mapShowResultToDatabases result =
     (case res_data result of
        None \<Rightarrow> emptyPage
      | Some rows \<Rightarrow>
          (case res_resultSetMetaData result of
             None \<Rightarrow> emptyPage
           | Some metaData \<Rightarrow>
               (let columnMap = buildColumnMap (md_rowType metaData);
                    items = map (databaseOfRow columnMap) rows
                in \<lparr> pr_items = items,
                     pr_count = length items,
                     pr_total = Some (md_numRows metaData),
                     pr_hasMore = False,
                     pr_nextPartition = None \<rparr>)))"

definition mapShowResultToSchemas :: "StatementResult \<Rightarrow> string \<Rightarrow> Schema PaginatedResponse" where
  "mapShowResultToSchemas result database =
     (case res_data result of
        None \<Rightarrow> emptyPage
      | Some rows \<Rightarrow>
          (case res_resultSetMetaData result of
             None \<Rightarrow> emptyPage
           | Some metaData \<Rightarrow>
               (let columnMap = buildColumnMap (md_rowType metaData);
                    items = map (schemaOfRow columnMap database) rows
                in \<lparr> pr_items = items,
                     pr_count = length items,
                     pr_total = Some (md_numRows metaData),
                     pr_hasMore = False,
                     pr_nextPartition = None \<rparr>)))"

definition mapShowResultToTables :: "StatementResult \<Rightarrow> string \<Rightarrow> string \<Rightarrow> Table PaginatedResponse" where
  "mapShowResultToTables result database schema =
     (case res_data result of
        None \<Rightarrow> emptyPage
      | Some rows \<Rightarrow>
          (case res_resultSetMetaData result of
             None \<Rightarrow> emptyPage
           | Some metaData \<Rightarrow>
               (let columnMap = buildColumnMap (md_rowType metaData);
                    items = map (tableOfRow columnMap database schema) rows
                in \<lparr> pr_items = items,
                     pr_count = length items,
                     pr_total = Some (md_numRows metaData),
                     pr_hasMore = False,
                     pr_nextPartition = None \<rparr>)))"

definition mapShowResultToViews :: "StatementResult \<Rightarrow> string \<Rightarrow> string \<Rightarrow> View PaginatedResponse" where
  "mapShowResultToViews result database schema =
     (case res_data result of
        None \<Rightarrow> emptyPage
      | Some rows \<Rightarrow>
          (case res_resultSetMetaData result of
             None \<Rightarrow> emptyPage
           | Some metaData \<Rightarrow>
               (let columnMap = buildColumnMap (md_rowType metaData);
                    items = map (viewOfRow columnMap database schema) rows
                in \<lparr> pr_items = items,
                     pr_count = length items,
                     pr_total = Some (md_numRows metaData),
                     pr_hasMore = False,
                     pr_nextPartition = None \<rparr>)))"

definition mapDescribeResultToColumns :: "StatementResult \<Rightarrow> Column PaginatedResponse" where
  "mapDescribeResultToColumns result =
     (case res_data result of
        None \<Rightarrow> emptyPage
      | Some rows \<Rightarrow>
          (case res_resultSetMetaData result of
             None \<Rightarrow> emptyPage
           | Some metaData \<Rightarrow>
               (let columnMap = buildColumnMap (md_rowType metaData);
                    items = map (columnOfRow columnMap) rows
                in \<lparr> pr_items = items,
                     pr_count = length items,
                     pr_total = Some (md_numRows metaData),
                     pr_hasMore = False,
                     pr_nextPartition = None \<rparr>)))"

definition mapShowResultToWarehouses :: "StatementResult \<Rightarrow> Warehouse PaginatedResponse" where
  "mapShowResultToWarehouses result =
     (case res_data result of
        None \<Rightarrow> emptyPage
      | Some rows \<Rightarrow>
          (case res_resultSetMetaData result of
             None \<Rightarrow> emptyPage
           | Some metaData \<Rightarrow>
               (let columnMap = buildColumnMap (md_rowType metaData);
                    items = map (warehouseOfRow columnMap) rows
                in \<lparr> pr_items = items,
                     pr_count = length items,
                     pr_total = Some (md_numRows metaData),
                     pr_hasMore = False,
                     pr_nextPartition = None \<rparr>)))"

section \<open>List operations and warehouse lookup\<close>

definition dq :: string where
  "dq = [CHR 0x22]"

definition sq :: string where
  "sq = [CHR 0x27]"

text \<open>The object literal \<open>{ statement, timeout }\<close>.\<close>

definition statementWithTimeout :: "string \<Rightarrow> int \<Rightarrow> StatementRequest" where
  "statementWithTimeout statement timeout =
     \<lparr> req_statement = statement, req_timeout = Some timeout, req_database = None,
       req_schema = None, req_warehouse = None, req_role = None, req_bindings = None,
       req_parameters = None \<rparr>"

definition listDatabases ::
  "TenantCredentials \<Rightarrow> network \<Rightarrow> js_error + Database PaginatedResponse" where
  "listDatabases credentials fetch =
     js_bind (executeStatement credentials fetch (statementWithTimeout ''SHOW DATABASES'' 30))
       (\<lambda>result. Inr (mapShowResultToDatabases result))"

definition listSchemas ::
  "TenantCredentials \<Rightarrow> network \<Rightarrow> string \<Rightarrow> js_error + Schema PaginatedResponse" where
  "listSchemas credentials fetch database =
     js_bind
       (executeStatement credentials fetch
          (statementWithTimeout (''SHOW SCHEMAS IN DATABASE '' @ dq @ database @ dq) 30))
       (\<lambda>result. Inr (mapShowResultToSchemas result database))"

definition listTables ::
  "TenantCredentials \<Rightarrow> network \<Rightarrow> string \<Rightarrow> string \<Rightarrow> js_error + Table PaginatedResponse" where
  "listTables credentials fetch database schema =
     js_bind
       (executeStatement credentials fetch
          (statementWithTimeout
             (''SHOW TABLES IN '' @ dq @ database @ dq @ ''.'' @ dq @ schema @ dq) 30))
       (\<lambda>result. Inr (mapShowResultToTables result database schema))"

definition listViews ::
  "TenantCredentials \<Rightarrow> network \<Rightarrow> string \<Rightarrow> string \<Rightarrow> js_error + View PaginatedResponse" where
  "listViews credentials fetch database schema =
     js_bind
       (executeStatement credentials fetch
          (statementWithTimeout
             (''SHOW VIEWS IN '' @ dq @ database @ dq @ ''.'' @ dq @ schema @ dq) 30))
       (\<lambda>result. Inr (mapShowResultToViews result database schema))"

definition describeTable ::
  "TenantCredentials \<Rightarrow> network \<Rightarrow> string \<Rightarrow> string \<Rightarrow> string \<Rightarrow>
   js_error + Column PaginatedResponse" where
  "describeTable credentials fetch database schema table =
     js_bind
       (executeStatement credentials fetch
          (statementWithTimeout
             (''DESCRIBE TABLE '' @ dq @ database @ dq @ ''.'' @ dq @ schema @ dq @ ''.''
                @ dq @ table @ dq) 30))
       (\<lambda>result. Inr (mapDescribeResultToColumns result))"

definition listWarehouses ::
  "TenantCredentials \<Rightarrow> network \<Rightarrow> js_error + Warehouse PaginatedResponse" where
  "listWarehouses credentials fetch =
     js_bind (executeStatement credentials fetch (statementWithTimeout ''SHOW WAREHOUSES'' 30))
       (\<lambda>result. Inr (mapShowResultToWarehouses result))"

definition getWarehouseStatus ::
  "TenantCredentials \<Rightarrow> network \<Rightarrow> string \<Rightarrow> js_error + Warehouse" where
  "getWarehouseStatus credentials fetch warehouseName =
     js_bind
       (executeStatement credentials fetch
          (statementWithTimeout (''SHOW WAREHOUSES LIKE '' @ sq @ warehouseName @ sq) 30))
       (\<lambda>result.
          let warehouses = mapShowResultToWarehouses result
          in if length (pr_items warehouses) = 0 then
               Inl (ApiError (newSnowflakeApiError
                 (JStr (''Warehouse '' @ sq @ warehouseName @ sq @ '' not found''))
                 (Some 404) (JStr ''NOT_FOUND'') False JUndefined))
             else Inr (pr_items warehouses ! 0))"

section \<open>Notions of the specification\<close>

text \<open>
  The specification's "a further partition exists per \<open>partitionInfo\<close>", for the response
  to a list command, which carries the first partition: the metadata lists more than one
  partition.
\<close>

definition furtherPartitionExists :: "StatementResult \<Rightarrow> bool" where
  "furtherPartitionExists result =
     (case res_resultSetMetaData result of
        None \<Rightarrow> False
      | Some metaData \<Rightarrow>
          (case md_partitionInfo metaData of None \<Rightarrow> False | Some ps \<Rightarrow> 1 < length ps))"

text \<open>
  The specification's \<open>NotFound\<close> kind: code \<open>NOT_FOUND\<close>, status 404, not retryable.
\<close>

definition isNotFound :: "js_error \<Rightarrow> bool" where
  "isNotFound e =
     (case e of
        ApiError a \<Rightarrow>
          err_code a = JStr ''NOT_FOUND'' \<and> err_statusCode a = Some 404 \<and> \<not> err_retryable a
      | _ \<Rightarrow> False)"

text \<open>The lower-cased column names of a row type, in order: the keys the column map is built from.\<close>

definition lowerNames :: "ColumnMetaData list \<Rightarrow> string list" where
  "lowerNames rowType = map (\<lambda>col. toLowerCase (cmd_name col)) rowType"

section \<open>Example data\<close>

text \<open>A nullable text column with the given name.\<close>

definition textColumn :: "string \<Rightarrow> ColumnMetaData" where
  "textColumn name =
     \<lparr> cmd_name = name, cmd_type = ''text'', cmd_database = None, cmd_schema = None,
       cmd_table = None, cmd_nullable = True, cmd_byteLength = None, cmd_precision = None,
       cmd_scale = None, cmd_collation = None \<rparr>"

text \<open>
  A successful statement result with the given column names, rows, total row count and
  partition list.
\<close>

definition showResult ::
  "string list \<Rightarrow> string list list \<Rightarrow> int \<Rightarrow> PartitionInfo list option \<Rightarrow> StatementResult" where
  "showResult names rows numRows partitions =
     \<lparr> res_statementHandle = ''01b2-0000'',
       res_status = success,
       res_resultSetMetaData =
         Some \<lparr> md_numRows = numRows, md_format = Some ''jsonv2'',
                md_partitionInfo = partitions, md_rowType = map textColumn names \<rparr>,
       res_data = Some rows,
       res_stats = None,
       res_statementStatusUrl = None,
       res_message = None,
       res_sqlState = None,
       res_code = None \<rparr>"

text \<open>Credentials with no default context, and a response with a status and a body only.\<close>

definition plainCredentials :: TenantCredentials where
  "plainCredentials =
     \<lparr> cred_account = ''acme'', cred_token = ''jwt'', cred_warehouse = None,
       cred_database = None, cred_schema = None, cred_role = None \<rparr>"

definition errorResponse :: "nat \<Rightarrow> jsval option \<Rightarrow> SnowflakeStatementResponse http_response" where
  "errorResponse status body =
     \<lparr> resp_status = status, resp_retryAfter = None, resp_json = body,
       resp_payload = None \<rparr>"

text \<open>
  Two answers to \<open>SHOW WAREHOUSES LIKE ...\<close>, with status 200: one warehouse found, and
  none found.  The body is given at the response type and as the JSON value.
\<close>

definition nameAndState :: "ResponseColumn list" where
  "nameAndState =
     [\<lparr> rc_name = ''name'', rc_type = ''text'', rc_database = None, rc_schema = None,
        rc_table = None, rc_nullable = None, rc_byteLength = None, rc_precision = None,
        rc_scale = None, rc_collation = None \<rparr>,
      \<lparr> rc_name = ''state'', rc_type = ''text'', rc_database = None, rc_schema = None,
        rc_table = None, rc_nullable = None, rc_byteLength = None, rc_precision = None,
        rc_scale = None, rc_collation = None \<rparr>]"

definition warehouseFoundBody :: SnowflakeStatementResponse where
  "warehouseFoundBody =
     \<lparr> sr_statementHandle = ''01b2-0000'',
       sr_statementStatusUrl = None,
       sr_message = Some ''Statement executed successfully.'',
       sr_sqlState = None,
       sr_code = None,
       sr_resultSetMetaData = Some
         \<lparr> rmd_numRows = 1, rmd_format = None, rmd_partitionInfo = None,
           rmd_rowType = nameAndState \<rparr>,
       sr_data = Some [[''WH_XS'', ''STARTED'']],
       sr_stats = None \<rparr>"

definition warehouseFound :: "SnowflakeStatementResponse http_response" where
  "warehouseFound =
     \<lparr> resp_status = 200,
       resp_retryAfter = None,
       resp_json = Some (JObj
         [(''statementHandle'', JStr ''01b2-0000''),
          (''message'', JStr ''Statement executed successfully.''),
          (''resultSetMetaData'', JObj
             [(''numRows'', JNum 1),
              (''rowType'', JArr
                 [JObj [(''name'', JStr ''name''), (''type'', JStr ''text'')],
                  JObj [(''name'', JStr ''state''), (''type'', JStr ''text'')]])]),
          (''data'', JArr [JArr [JStr ''WH_XS'', JStr ''STARTED'']])]),
       resp_payload = Some warehouseFoundBody \<rparr>"

definition warehouseMissingBody :: SnowflakeStatementResponse where
  "warehouseMissingBody =
     \<lparr> sr_statementHandle = ''01b2-0001'',
       sr_statementStatusUrl = None,
       sr_message = Some ''Statement executed successfully.'',
       sr_sqlState = None,
       sr_code = None,
       sr_resultSetMetaData = Some
         \<lparr> rmd_numRows = 0, rmd_format = None, rmd_partitionInfo = None,
           rmd_rowType = nameAndState \<rparr>,
       sr_data = Some [],
       sr_stats = None \<rparr>"

definition warehouseMissing :: "SnowflakeStatementResponse http_response" where
  "warehouseMissing =
     \<lparr> resp_status = 200,
       resp_retryAfter = None,
       resp_json = Some (JObj
         [(''statementHandle'', JStr ''01b2-0001''),
          (''message'', JStr ''Statement executed successfully.''),
          (''resultSetMetaData'', JObj
             [(''numRows'', JNum 0),
              (''rowType'', JArr
                 [JObj [(''name'', JStr ''name''), (''type'', JStr ''text'')],
                  JObj [(''name'', JStr ''state''), (''type'', JStr ''text'')]])]),
          (''data'', JArr [])]),
       resp_payload = Some warehouseMissingBody \<rparr>"

text \<open>
  An answer to \<open>SHOW DATABASES\<close>, with status 200, that carries the first of two
  partitions.
\<close>

definition databasesFirstPartitionBody :: SnowflakeStatementResponse where
  "databasesFirstPartitionBody =
     \<lparr> sr_statementHandle = ''01b2-0002'',
       sr_statementStatusUrl = None,
       sr_message = Some ''Statement executed successfully.'',
       sr_sqlState = None,
       sr_code = None,
       sr_resultSetMetaData = Some
         \<lparr> rmd_numRows = 2, rmd_format = None,
           rmd_partitionInfo = Some
             [\<lparr> part_rowCount = 1, part_uncompressedSize = None, part_compressedSize = None \<rparr>,
              \<lparr> part_rowCount = 1, part_uncompressedSize = None, part_compressedSize = None \<rparr>],
           rmd_rowType =
             [\<lparr> rc_name = ''name'', rc_type = ''text'', rc_database = None, rc_schema = None,
                rc_table = None, rc_nullable = None, rc_byteLength = None,
                rc_precision = None, rc_scale = None, rc_collation = None \<rparr>] \<rparr>,
       sr_data = Some [[''DB1'']],
       sr_stats = None \<rparr>"

definition databasesFirstPartition :: "SnowflakeStatementResponse http_response" where
  "databasesFirstPartition =
     \<lparr> resp_status = 200,
       resp_retryAfter = None,
       resp_json = Some (JObj
         [(''statementHandle'', JStr ''01b2-0002''),
          (''message'', JStr ''Statement executed successfully.''),
          (''resultSetMetaData'', JObj
             [(''numRows'', JNum 2),
              (''partitionInfo'', JArr
                 [JObj [(''rowCount'', JNum 1)], JObj [(''rowCount'', JNum 1)]]),
              (''rowType'', JArr
                 [JObj [(''name'', JStr ''name''), (''type'', JStr ''text'')]])]),
          (''data'', JArr [JArr [JStr ''DB1'']])]),
       resp_payload = Some databasesFirstPartitionBody \<rparr>"

section \<open>Properties of the model\<close>

subsection \<open>Strings\<close>

lemma includes_iff: "str_includes s p \<longleftrightarrow> (\<exists>xs ys. s = xs @ p @ ys)"
proof (induction s)
  case Nil
  then show ?case by auto
next
  case (Cons c cs)
  show ?case
  proof
    assume "str_includes (c # cs) p"
    then consider "prefix p (c # cs)" | "str_includes cs p" by auto
    then show "\<exists>xs ys. c # cs = xs @ p @ ys"
    proof cases
      case 1
      then obtain ys where "c # cs = p @ ys" by (auto simp: prefix_def)
      then have "c # cs = [] @ p @ ys" by simp
      then show ?thesis by blast
    next
      case 2
      with Cons.IH obtain xs ys where "cs = xs @ p @ ys" by blast
      then have "c # cs = (c # xs) @ p @ ys" by simp
      then show ?thesis by blast
    qed
  next
    assume "\<exists>xs ys. c # cs = xs @ p @ ys"
    then obtain xs ys where e: "c # cs = xs @ p @ ys" by blast
    show "str_includes (c # cs) p"
    proof (cases xs)
      case Nil
      with e have "prefix p (c # cs)" by (simp add: prefix_def)
      then show ?thesis by simp
    next
      case (Cons x xs')
      with e have "cs = xs' @ p @ ys" by simp
      with Cons.IH have "str_includes cs p" by blast
      then show ?thesis by simp
    qed
  qed
qed

subsection \<open>The column map\<close>

lemma buildColumnMap_from_absent:
  "key \<notin> set (lowerNames cols) \<Longrightarrow> buildColumnMap_from n cols m key = m key"
  by (induction cols arbitrary: n m) (auto simp: lowerNames_def setKey_def)

lemma buildColumnMap_from_proto:
  "buildColumnMap_from n cols m ''__proto__'' = m ''__proto__''"
  by (induction cols arbitrary: n m) (auto simp: setKey_def)

lemma buildColumnMap_from_last:
  assumes "key \<noteq> ''__proto__''" "i < length cols" "lowerNames cols ! i = key"
    and "\<forall>k. i < k \<and> k < length cols \<longrightarrow> lowerNames cols ! k \<noteq> key"
  shows "buildColumnMap_from n cols m key = Some (n + i)"
  using assms
proof (induction cols arbitrary: n m i)
  case Nil
  then show ?case by simp
next
  case (Cons col cols)
  show ?case
  proof (cases i)
    case 0
    have "key \<notin> set (lowerNames cols)"
    proof
      assume "key \<in> set (lowerNames cols)"
      then obtain k where k: "k < length cols" "lowerNames cols ! k = key"
        by (auto simp: in_set_conv_nth lowerNames_def)
      with Cons.prems(4) 0 have "lowerNames (col # cols) ! Suc k \<noteq> key" by auto
      with k show False by (simp add: lowerNames_def)
    qed
    then have "buildColumnMap_from (Suc n) cols (setKey m (toLowerCase (cmd_name col)) n) key
        = setKey m (toLowerCase (cmd_name col)) n key"
      by (rule buildColumnMap_from_absent)
    moreover from 0 Cons.prems(3) have "toLowerCase (cmd_name col) = key"
      by (simp add: lowerNames_def)
    ultimately show ?thesis using 0 Cons.prems(1) by (simp add: setKey_def)
  next
    case (Suc i')
    have a: "i' < length cols" using Suc Cons.prems(2) by simp
    have b: "lowerNames cols ! i' = key" using Suc Cons.prems(3) by (simp add: lowerNames_def)
    have c: "\<forall>k. i' < k \<and> k < length cols \<longrightarrow> lowerNames cols ! k \<noteq> key"
    proof (intro allI impI)
      fix k assume "i' < k \<and> k < length cols"
      with Cons.prems(4) Suc have "lowerNames (col # cols) ! Suc k \<noteq> key" by auto
      then show "lowerNames cols ! k \<noteq> key" by (simp add: lowerNames_def)
    qed
    from Cons.IH[OF Cons.prems(1) a b c, of "Suc n" "setKey m (toLowerCase (cmd_name col)) n"]
    show ?thesis using Suc by simp
  qed
qed

lemma last_occurrence:
  assumes "i < length xs" "xs ! i = key"
  shows "\<exists>j. i \<le> j \<and> j < length xs \<and> xs ! j = key \<and> (\<forall>k. j < k \<and> k < length xs \<longrightarrow> xs ! k \<noteq> key)"
proof -
  let ?S = "{k. k < length xs \<and> xs ! k = key}"
  have fin: "finite ?S" by simp
  have ne: "i \<in> ?S" using assms by simp
  let ?j = "Max ?S"
  have "?j \<in> ?S" using fin ne Max_in by blast
  moreover have "i \<le> ?j" using fin ne by (rule Max_ge)
  moreover have "\<forall>k. ?j < k \<and> k < length xs \<longrightarrow> xs ! k \<noteq> key"
  proof (intro allI impI notI)
    fix k assume k: "?j < k \<and> k < length xs" and "xs ! k = key"
    then have "k \<in> ?S" by simp
    with fin have "k \<le> ?j" by (rule Max_ge)
    with k show False by simp
  qed
  ultimately show ?thesis by blast
qed

lemma buildColumnMap_names:
  "lowerNames rowType = lowerNames rowType' \<Longrightarrow>
   buildColumnMap_from n rowType m = buildColumnMap_from n rowType' m"
proof (induction rowType arbitrary: rowType' n m)
  case Nil
  then show ?case by (simp add: lowerNames_def)
next
  case (Cons col cols)
  then obtain col' cols' where r: "rowType' = col' # cols'"
    by (cases rowType') (auto simp: lowerNames_def)
  with Cons.prems have "toLowerCase (cmd_name col) = toLowerCase (cmd_name col')"
    and "lowerNames cols = lowerNames cols'"
    by (simp_all add: lowerNames_def)
  with Cons.IH r show ?case by simp
qed

lemma lowerNames_of_names:
  "lowerNames rowType = map toLowerCase (map cmd_name rowType)"
  by (simp add: lowerNames_def)

lemma buildColumnMap_by_names:
  "map cmd_name rowType = names \<Longrightarrow>
   buildColumnMap rowType = buildColumnMap (map textColumn names)"
proof -
  assume n: "map cmd_name rowType = names"
  have "lowerNames (map textColumn names) = map toLowerCase names"
    by (simp add: lowerNames_def textColumn_def comp_def)
  with n have "lowerNames rowType = lowerNames (map textColumn names)"
    by (simp add: lowerNames_of_names)
  then show ?thesis unfolding buildColumnMap_def by (rule buildColumnMap_names)
qed

subsection \<open>Cells and mappers\<close>

lemma cell_out_of_range:
  "int (length row) \<le> (case columnMap key of None \<Rightarrow> fallback | Some i \<Rightarrow> int i) \<Longrightarrow>
   cell row columnMap key fallback = None"
  by (simp add: cell_def js_index_def)

lemma cell_negative_fallback:
  "columnMap key = None \<Longrightarrow> fallback < 0 \<Longrightarrow> cell row columnMap key fallback = None"
  by (simp add: cell_def js_index_def)

lemma or_string_nonempty: "d \<noteq> [] \<Longrightarrow> or_string v d \<noteq> []"
  by (simp add: or_string_def split: option.splits)

lemma wh_state_of_row:
  "wh_state (warehouseOfRow columnMap row) = or_string (cell row columnMap ''state'' 1) ''SUSPENDED''"
  by (simp add: warehouseOfRow_def)

lemma wh_name_of_row:
  "wh_name (warehouseOfRow columnMap row) = or_empty (cell row columnMap ''name'' 0)"
  by (simp add: warehouseOfRow_def)

lemma mapShowResultToDatabases_Some:
  "res_data result = Some rows \<Longrightarrow> res_resultSetMetaData result = Some metaData \<Longrightarrow>
   mapShowResultToDatabases result =
     \<lparr> pr_items = map (databaseOfRow (buildColumnMap (md_rowType metaData))) rows,
       pr_count = length rows, pr_total = Some (md_numRows metaData), pr_hasMore = False,
       pr_nextPartition = None \<rparr>"
  by (simp add: mapShowResultToDatabases_def Let_def)

lemma mapShowResultToSchemas_Some:
  "res_data result = Some rows \<Longrightarrow> res_resultSetMetaData result = Some metaData \<Longrightarrow>
   mapShowResultToSchemas result database =
     \<lparr> pr_items = map (schemaOfRow (buildColumnMap (md_rowType metaData)) database) rows,
       pr_count = length rows, pr_total = Some (md_numRows metaData), pr_hasMore = False,
       pr_nextPartition = None \<rparr>"
  by (simp add: mapShowResultToSchemas_def Let_def)

lemma mapShowResultToTables_Some:
  "res_data result = Some rows \<Longrightarrow> res_resultSetMetaData result = Some metaData \<Longrightarrow>
   mapShowResultToTables result database schema =
     \<lparr> pr_items = map (tableOfRow (buildColumnMap (md_rowType metaData)) database schema) rows,
       pr_count = length rows, pr_total = Some (md_numRows metaData), pr_hasMore = False,
       pr_nextPartition = None \<rparr>"
  by (simp add: mapShowResultToTables_def Let_def)

lemma mapShowResultToViews_Some:
  "res_data result = Some rows \<Longrightarrow> res_resultSetMetaData result = Some metaData \<Longrightarrow>
   mapShowResultToViews result database schema =
     \<lparr> pr_items = map (viewOfRow (buildColumnMap (md_rowType metaData)) database schema) rows,
       pr_count = length rows, pr_total = Some (md_numRows metaData), pr_hasMore = False,
       pr_nextPartition = None \<rparr>"
  by (simp add: mapShowResultToViews_def Let_def)

lemma mapDescribeResultToColumns_Some:
  "res_data result = Some rows \<Longrightarrow> res_resultSetMetaData result = Some metaData \<Longrightarrow>
   mapDescribeResultToColumns result =
     \<lparr> pr_items = map (columnOfRow (buildColumnMap (md_rowType metaData))) rows,
       pr_count = length rows, pr_total = Some (md_numRows metaData), pr_hasMore = False,
       pr_nextPartition = None \<rparr>"
  by (simp add: mapDescribeResultToColumns_def Let_def)

lemma mapShowResultToWarehouses_Some:
  "res_data result = Some rows \<Longrightarrow> res_resultSetMetaData result = Some metaData \<Longrightarrow>
   mapShowResultToWarehouses result =
     \<lparr> pr_items = map (warehouseOfRow (buildColumnMap (md_rowType metaData))) rows,
       pr_count = length rows, pr_total = Some (md_numRows metaData), pr_hasMore = False,
       pr_nextPartition = None \<rparr>"
  by (simp add: mapShowResultToWarehouses_def Let_def)

lemma mappers_degenerate:
  assumes "res_data result = None \<or> res_resultSetMetaData result = None"
  shows "mapShowResultToDatabases result = emptyPage"
    and "mapShowResultToSchemas result database = emptyPage"
    and "mapShowResultToTables result database schema = emptyPage"
    and "mapShowResultToViews result database schema = emptyPage"
    and "mapDescribeResultToColumns result = emptyPage"
    and "mapShowResultToWarehouses result = emptyPage"
  using assms
  by (auto simp: mapShowResultToDatabases_def mapShowResultToSchemas_def
      mapShowResultToTables_def mapShowResultToViews_def mapDescribeResultToColumns_def
      mapShowResultToWarehouses_def split: option.splits)

subsection \<open>Credentials and request bodies\<close>

lemma or_empty_falsy: "or_empty v = [] \<longleftrightarrow> \<not> truthy v"
  by (simp add: or_empty_def truthy_def split: option.splits)

lemma or_empty_Some: "truthy v \<Longrightarrow> v = Some (or_empty v)"
  by (simp add: or_empty_def truthy_def split: option.splits)

lemma body_context_field:
  "(truthy r \<longrightarrow> (if truthy (opt_or r c) then opt_or r c else None) = r)
   \<and> (\<not> truthy r \<and> truthy c \<longrightarrow> (if truthy (opt_or r c) then opt_or r c else None) = c)
   \<and> (\<not> truthy r \<and> \<not> truthy c \<longrightarrow> (if truthy (opt_or r c) then opt_or r c else None) = None)"
  by (simp add: opt_or_def)

subsection \<open>Classification of responses\<close>

lemma js_bind_Inl:
  "js_bind r f = Inl e \<Longrightarrow> r = Inl e \<or> (\<exists>v. r = Inr v \<and> f v = Inl e)"
  by (cases r) (simp_all add: js_bind_def)

lemma getProp_Inl: "getProp v key = Inl e \<Longrightarrow> e = TypeError"
  by (cases v) simp_all

lemma getProp_defined:
  "v \<noteq> JNull \<Longrightarrow> v \<noteq> JUndefined \<Longrightarrow> \<exists>x. getProp v key = Inr x"
  by (cases v) simp_all

lemma taxonomy_fields:
  "err_name (RateLimitError m n) = ''RateLimitError''"
  "err_code (RateLimitError m n) = JStr ''RATE_LIMIT_EXCEEDED''"
  "err_statusCode (RateLimitError m n) = Some 429"
  "err_retryable (RateLimitError m n) = True"
  "err_retryAfterSeconds (RateLimitError m n) = Some n"
  "err_name (AuthenticationError m) = ''AuthenticationError''"
  "err_code (AuthenticationError m) = JStr ''AUTHENTICATION_FAILED''"
  "err_statusCode (AuthenticationError m) = Some 401"
  "err_retryable (AuthenticationError m) = False"
  "err_name (TimeoutError m h) = ''TimeoutError''"
  "err_code (TimeoutError m h) = JStr ''EXECUTION_TIMEOUT''"
  "err_statusCode (TimeoutError m h) = Some 408"
  "err_retryable (TimeoutError m h) = True"
  "err_statementHandle (TimeoutError m h) = h"
  "err_name (StatementError m h s c) = ''StatementError''"
  "err_code (StatementError m h s c) = js_or c (JStr ''STATEMENT_ERROR'')"
  "err_statusCode (StatementError m h s c) = Some 422"
  "err_retryable (StatementError m h s c) = False"
  "err_statementHandle (StatementError m h s c) = h"
  "err_sqlState (StatementError m h s c) = s"
  "err_name (newSnowflakeApiError m sc JUndefined r s) = ''SnowflakeApiError''"
  "err_code (newSnowflakeApiError m sc JUndefined r s) = JStr ''SNOWFLAKE_ERROR''"
  "err_statusCode (newSnowflakeApiError m sc c r s) = sc"
  "err_retryable (newSnowflakeApiError m sc c r s) = r"
  by (simp_all add: RateLimitError_def AuthenticationError_def TimeoutError_def
      StatementError_def newSnowflakeApiError_def js_or_def)

lemma classifyResponse_429:
  "resp_status response = 429 \<Longrightarrow>
   classifyResponse response =
     Inl (ApiError (RateLimitError (JStr ''Rate limit exceeded'')
       (case resp_retryAfter response of
          None \<Rightarrow> Num 60
        | Some retryAfter \<Rightarrow> if retryAfter \<noteq> [] then parseInt10 retryAfter else Num 60)))"
  by (simp add: classifyResponse_def)

lemma classifyResponse_auth:
  "resp_status response = 401 \<or> resp_status response = 403 \<Longrightarrow>
   classifyResponse response =
     Inl (ApiError (AuthenticationError
       (JStr ''Authentication failed. Check your Snowflake account and JWT token.'')))"
  by (auto simp: classifyResponse_def)

lemma classifyResponse_408:
  "resp_status response = 408 \<Longrightarrow>
   classifyResponse response =
     js_bind (getProp (case resp_json response of None \<Rightarrow> JObj [] | Some b \<Rightarrow> b) ''message'')
       (\<lambda>message.
         js_bind (getProp (case resp_json response of None \<Rightarrow> JObj [] | Some b \<Rightarrow> b) ''statementHandle'')
           (\<lambda>statementHandle.
             Inl (ApiError (TimeoutError
               (js_or message (JStr ''Statement execution timed out''))
               statementHandle))))"
  by (simp add: classifyResponse_def Let_def)

lemma classifyResponse_422:
  "resp_status response = 422 \<Longrightarrow>
   classifyResponse response =
     js_bind (getProp (case resp_json response of None \<Rightarrow> JObj [] | Some b \<Rightarrow> b) ''message'')
       (\<lambda>message.
         js_bind (getProp (case resp_json response of None \<Rightarrow> JObj [] | Some b \<Rightarrow> b) ''statementHandle'')
           (\<lambda>statementHandle.
             js_bind (getProp (case resp_json response of None \<Rightarrow> JObj [] | Some b \<Rightarrow> b) ''sqlState'')
               (\<lambda>sqlState.
                 js_bind (getProp (case resp_json response of None \<Rightarrow> JObj [] | Some b \<Rightarrow> b) ''code'')
                   (\<lambda>code.
                     Inl (ApiError (StatementError
                       (js_or message (JStr ''Statement execution failed''))
                       statementHandle sqlState code))))))"
  by (simp add: classifyResponse_def Let_def)

lemma classifyResponse_other:
  "resp_status response \<notin> {429, 401, 403, 408, 422} \<Longrightarrow> \<not> response_ok response \<Longrightarrow>
   classifyResponse response =
     Inl (ApiError (newSnowflakeApiError (errorMessage response)
            (Some (resp_status response)) JUndefined False JUndefined))"
  by (simp add: classifyResponse_def)

lemma classifyResponse_ok:
  "response_ok response \<Longrightarrow>
   classifyResponse response =
     (case resp_payload response of None \<Rightarrow> Inl SyntaxError | Some v \<Rightarrow> Inr v)"
  by (auto simp: classifyResponse_def response_ok_def)

text \<open>
  A rate-limited response with \<open>Retry-After: 30\<close>, and one without the header.
\<close>

lemma classifyResponse_rate_limit_examples:
  "classifyResponse ((errorResponse 429 None)\<lparr>resp_retryAfter := Some ''30''\<rparr>)
     = Inl (ApiError (RateLimitError (JStr ''Rate limit exceeded'') (Num 30)))"
  "classifyResponse (errorResponse 429 None)
     = Inl (ApiError (RateLimitError (JStr ''Rate limit exceeded'') (Num 60)))"
  by (simp_all add: classifyResponse_def errorResponse_def parseInt10_def is_space_def
      is_digit_def digits_value_def digit_val_def)

text \<open>
  Every response that is not 2xx is classified by its status alone, provided that the
  body of a 408 or 422 response does not parse to \<open>null\<close>: 429 gives a retryable
  \<open>RateLimitError\<close> whose delay is parsed from a non-empty \<open>Retry-After\<close> header and
  is 60 otherwise; 401 and 403 give an \<open>AuthenticationError\<close>; 408 gives a retryable
  \<open>TimeoutError\<close> with the body's statement handle; 422 gives a \<open>StatementError\<close>
  with the body's statement handle, SQL state and code; every other status gives the base
  error with that status.
\<close>

lemma classifyResponse_taxonomy:
  assumes nok: "\<not> response_ok response"
    and body: "resp_status response = 408 \<or> resp_status response = 422 \<longrightarrow>
               resp_json response \<noteq> Some JNull \<and> resp_json response \<noteq> Some JUndefined"
  shows "\<exists>e. classifyResponse response = Inl (ApiError e)
    \<and> (resp_status response = 429 \<longrightarrow>
          err_name e = ''RateLimitError'' \<and> err_code e = JStr ''RATE_LIMIT_EXCEEDED''
          \<and> err_retryable e
          \<and> err_retryAfterSeconds e =
              Some (case resp_retryAfter response of
                      None \<Rightarrow> Num 60
                    | Some h \<Rightarrow> if h \<noteq> [] then parseInt10 h else Num 60))
    \<and> (resp_status response = 401 \<or> resp_status response = 403 \<longrightarrow>
          err_name e = ''AuthenticationError'' \<and> err_code e = JStr ''AUTHENTICATION_FAILED''
          \<and> \<not> err_retryable e)
    \<and> (resp_status response = 408 \<longrightarrow>
          err_name e = ''TimeoutError'' \<and> err_code e = JStr ''EXECUTION_TIMEOUT''
          \<and> err_retryable e
          \<and> getProp (case resp_json response of None \<Rightarrow> JObj [] | Some b \<Rightarrow> b)
               ''statementHandle'' = Inr (err_statementHandle e))
    \<and> (resp_status response = 422 \<longrightarrow>
          err_name e = ''StatementError'' \<and> \<not> err_retryable e
          \<and> getProp (case resp_json response of None \<Rightarrow> JObj [] | Some b \<Rightarrow> b)
               ''statementHandle'' = Inr (err_statementHandle e)
          \<and> getProp (case resp_json response of None \<Rightarrow> JObj [] | Some b \<Rightarrow> b)
               ''sqlState'' = Inr (err_sqlState e)
          \<and> (\<exists>code. getProp (case resp_json response of None \<Rightarrow> JObj [] | Some b \<Rightarrow> b)
               ''code'' = Inr code \<and> err_code e = js_or code (JStr ''STATEMENT_ERROR'')))
    \<and> (resp_status response \<notin> {429, 401, 403, 408, 422} \<longrightarrow>
          err_name e = ''SnowflakeApiError'' \<and> err_code e = JStr ''SNOWFLAKE_ERROR''
          \<and> err_statusCode e = Some (resp_status response) \<and> \<not> err_retryable e)"
proof -
  let ?body = "case resp_json response of None \<Rightarrow> JObj [] | Some b \<Rightarrow> b"
  consider (rate) "resp_status response = 429"
    | (auth) "resp_status response = 401 \<or> resp_status response = 403"
    | (timeout) "resp_status response = 408"
    | (statement) "resp_status response = 422"
    | (other) "resp_status response \<notin> {429, 401, 403, 408, 422}"
    by auto
  then show ?thesis
  proof cases
    case rate
    show ?thesis
      by (rule exI, rule conjI, rule classifyResponse_429 [OF rate])
        (simp add: rate taxonomy_fields)
  next
    case auth
    show ?thesis
      by (rule exI, rule conjI, rule classifyResponse_auth [OF auth])
        (use auth in \<open>auto simp: taxonomy_fields\<close>)
  next
    case timeout
    with body have d: "?body \<noteq> JNull" "?body \<noteq> JUndefined"
      by (auto split: option.splits)
    from getProp_defined [OF d] obtain m where m: "getProp ?body ''message'' = Inr m"
      by blast
    from getProp_defined [OF d] obtain h where h: "getProp ?body ''statementHandle'' = Inr h"
      by blast
    have "classifyResponse response =
        Inl (ApiError (TimeoutError (js_or m (JStr ''Statement execution timed out'')) h))"
      using classifyResponse_408 [OF timeout] m h by (simp add: js_bind_def)
    then show ?thesis
      by (rule_tac x = "TimeoutError (js_or m (JStr ''Statement execution timed out'')) h" in exI)
        (simp add: timeout taxonomy_fields h)
  next
    case statement
    with body have d: "?body \<noteq> JNull" "?body \<noteq> JUndefined"
      by (auto split: option.splits)
    from getProp_defined [OF d] obtain m where m: "getProp ?body ''message'' = Inr m"
      by blast
    from getProp_defined [OF d] obtain h where h: "getProp ?body ''statementHandle'' = Inr h"
      by blast
    from getProp_defined [OF d] obtain s where s: "getProp ?body ''sqlState'' = Inr s"
      by blast
    from getProp_defined [OF d] obtain c where c: "getProp ?body ''code'' = Inr c"
      by blast
    have "classifyResponse response =
        Inl (ApiError (StatementError (js_or m (JStr ''Statement execution failed'')) h s c))"
      using classifyResponse_422 [OF statement] m h s c by (simp add: js_bind_def)
    then show ?thesis
      by (rule_tac x = "StatementError (js_or m (JStr ''Statement execution failed'')) h s c"
          in exI)
        (simp add: statement taxonomy_fields h s c)
  next
    case other
    show ?thesis
      by (rule exI, rule conjI, rule classifyResponse_other [OF other nok])
        (use other in \<open>simp add: taxonomy_fields\<close>)
  qed
qed

lemma isNotFound_simps:
  "\<not> isNotFound (ApiError (RateLimitError m n))"
  "\<not> isNotFound (ApiError (AuthenticationError m))"
  "\<not> isNotFound (ApiError (TimeoutError m h))"
  "\<not> isNotFound (ApiError (StatementError m h s c))"
  "\<not> isNotFound (ApiError (newSnowflakeApiError m sc JUndefined r s))"
  "\<not> isNotFound (PlainError x)"
  "\<not> isNotFound TypeError"
  "\<not> isNotFound SyntaxError"
  "\<not> isNotFound FetchRejected"
  by (simp_all add: isNotFound_def taxonomy_fields)

lemma isNotFound_lookup_miss:
  "isNotFound (ApiError (newSnowflakeApiError m (Some 404) (JStr ''NOT_FOUND'') False s))"
  by (simp add: isNotFound_def newSnowflakeApiError_def js_or_def)

lemma classifyResponse_not_NotFound:
  assumes "classifyResponse response = Inl e"
  shows "\<not> isNotFound e"
proof -
  let ?body = "case resp_json response of None \<Rightarrow> JObj [] | Some b \<Rightarrow> b"
  consider (rate) "resp_status response = 429"
    | (auth) "resp_status response = 401 \<or> resp_status response = 403"
    | (timeout) "resp_status response = 408"
    | (statement) "resp_status response = 422"
    | (other) "resp_status response \<notin> {429, 401, 403, 408, 422}" "\<not> response_ok response"
    | (ok) "response_ok response"
    by auto
  then show ?thesis
  proof cases
    case rate
    from classifyResponse_429 [OF rate] assms show ?thesis
      by (auto simp: isNotFound_simps)
  next
    case auth
    from classifyResponse_auth [OF auth] assms show ?thesis
      by (auto simp: isNotFound_simps)
  next
    case timeout
    from assms show ?thesis
      unfolding classifyResponse_408 [OF timeout]
      by (auto dest!: js_bind_Inl getProp_Inl simp: isNotFound_simps)
  next
    case statement
    from assms show ?thesis
      unfolding classifyResponse_422 [OF statement]
      by (auto dest!: js_bind_Inl getProp_Inl simp: isNotFound_simps)
  next
    case other
    from classifyResponse_other [OF other] assms show ?thesis
      by (auto simp: isNotFound_simps)
  next
    case ok
    from classifyResponse_ok [OF ok] assms show ?thesis
      by (auto simp: isNotFound_simps split: option.splits)
  qed
qed

lemma executeStatement_not_NotFound:
  assumes "executeStatement credentials fetch req = Inl e"
  shows "\<not> isNotFound e"
proof -
  from assms have "request credentials fetch ''/statements'' (Some ''POST'')
          (Some (executeStatement_body credentials req)) None = Inl e"
    by (auto simp: executeStatement_def dest!: js_bind_Inl)
  then show ?thesis
    by (auto simp: request_def isNotFound_simps split: option.splits
        dest: classifyResponse_not_NotFound)
qed

lemma executeStatement_ok:
  assumes "fetch \<lparr> hreq_url = baseUrl credentials @ ''/statements'',
                   hreq_method = Some ''POST'',
                   hreq_headers = getAuthHeaders credentials,
                   hreq_body = Some (executeStatement_body credentials req) \<rparr> = Some response"
    and "response_ok response" and "resp_payload response = Some payload"
  shows "executeStatement credentials fetch req = Inr (mapStatementResponse payload)"
  using assms
  by (simp add: executeStatement_def request_def classifyResponse_ok js_bind_def)

section \<open>Claims\<close>

subsection \<open>C1: status inference\<close>

text \<open>
  The claim as stated fails on the code: a status URL is present, the message reports
  success, and \<open>mapStatus\<close> answers \<open>success\<close>, not \<open>running\<close>.  (A completed
  synchronous response of the warehouse carries both.)
\<close>

theorem mapStatus_status_url_counterexample:
  "truthy (Some ''/api/v2/statements/01b2-0000'')
   \<and> mapStatus (Some ''/api/v2/statements/01b2-0000'')
        (Some ''Statement executed successfully.'') = success"
  by code_simp

text \<open>
  C1 (amended, as the code has it).  \<open>mapStatus\<close> returns \<open>success\<close> whenever the
  lower-cased message contains \<open>success\<close>, whatever the status URL; otherwise it returns
  \<open>running\<close> when a non-empty status URL is present; otherwise \<open>failed_with_error\<close> when
  the lower-cased message contains \<open>failed\<close> or \<open>error\<close>; otherwise \<open>success\<close>.  The
  success-message test comes before the status-URL test, which comes before the
  failure-indicator test.
\<close>

theorem mapStatus_precedence:
  "(messageIncludes message ''success'' \<longrightarrow> mapStatus statusUrl message = success) \<and>
   (\<not> messageIncludes message ''success'' \<and> truthy statusUrl \<longrightarrow>
      mapStatus statusUrl message = running) \<and>
   (\<not> messageIncludes message ''success'' \<and> \<not> truthy statusUrl \<and>
    (messageIncludes message ''failed'' \<or> messageIncludes message ''error'') \<longrightarrow>
      mapStatus statusUrl message = failed_with_error) \<and>
   (\<not> truthy statusUrl \<and> \<not> messageIncludes message ''failed'' \<and>
    \<not> messageIncludes message ''error'' \<longrightarrow>
      mapStatus statusUrl message = success)"
  by (auto simp: mapStatus_def messageIncludes_def truthy_def toLowerCase_def
      split: option.splits)

text \<open>
  The four cases at concrete responses.
\<close>

theorem mapStatus_precedence_witness:
  "(messageIncludes (Some ''Statement executed successfully.'') ''success''
      \<and> mapStatus (Some ''/api/v2/statements/01b2-0000'')
          (Some ''Statement executed successfully.'') = success)
   \<and> (\<not> messageIncludes (Some ''Asynchronous execution in progress.'') ''success''
      \<and> truthy (Some ''/api/v2/statements/01b2-0000'')
      \<and> mapStatus (Some ''/api/v2/statements/01b2-0000'')
          (Some ''Asynchronous execution in progress.'') = running)
   \<and> (\<not> messageIncludes (Some ''SQL compilation error'') ''success''
      \<and> \<not> truthy None
      \<and> messageIncludes (Some ''SQL compilation error'') ''error''
      \<and> mapStatus None (Some ''SQL compilation error'') = failed_with_error)
   \<and> (\<not> truthy None \<and> \<not> messageIncludes (Some ''Done.'') ''failed''
      \<and> \<not> messageIncludes (Some ''Done.'') ''error''
      \<and> mapStatus None (Some ''Done.'') = success)"
proof -
  have h1: "messageIncludes (Some ''Statement executed successfully.'') ''success''"
    by code_simp
  have h2: "\<not> messageIncludes (Some ''Asynchronous execution in progress.'') ''success''"
    by code_simp
  have h2': "truthy (Some ''/api/v2/statements/01b2-0000'')"
    by code_simp
  have h3: "\<not> messageIncludes (Some ''SQL compilation error'') ''success''"
    by code_simp
  have h3': "\<not> truthy None"
    by code_simp
  have h3'': "messageIncludes (Some ''SQL compilation error'') ''error''"
    by code_simp
  have h4: "\<not> messageIncludes (Some ''Done.'') ''failed''"
    by code_simp
  have h4': "\<not> messageIncludes (Some ''Done.'') ''error''"
    by code_simp
  note c1 = mapStatus_precedence [of "Some ''Statement executed successfully.''"
      "Some ''/api/v2/statements/01b2-0000''", THEN conjunct1, THEN mp, OF h1]
  note c2 = mapStatus_precedence [of "Some ''Asynchronous execution in progress.''"
      "Some ''/api/v2/statements/01b2-0000''", THEN conjunct2, THEN conjunct1, THEN mp,
      OF conjI [OF h2 h2']]
  note c3 = mapStatus_precedence [of "Some ''SQL compilation error''" None,
      THEN conjunct2, THEN conjunct2, THEN conjunct1, THEN mp,
      OF conjI [OF h3 conjI [OF h3' disjI2 [OF h3'']]]]
  note c4 = mapStatus_precedence [of "Some ''Done.''" None,
      THEN conjunct2, THEN conjunct2, THEN conjunct2, THEN mp,
      OF conjI [OF h3' conjI [OF h4 h4']]]
  show ?thesis
    by (intro conjI) (fact h1 h2 h2' h3 h3' h3'' h4 h4' c1 c2 c3 c4)+
qed

subsection \<open>C2: classification of failed responses\<close>

text \<open>
  C2 (failing input).  When the body of a 408 or of a 422 response is the JSON value
  \<open>null\<close>, \<open>response.json()\<close> succeeds, the \<open>catch\<close> that replaces a malformed body
  by \<open>{}\<close> does not fire, and the read of \<open>body.message\<close> throws a \<open>TypeError\<close>:
  \<open>request\<close> fails with an error that is no member of the taxonomy.  The last error
  branch reads the same properties inside a \<open>try\<close>, and classifies the same body (here
  with status 500).  On every other response that is not 2xx the claim holds
  (\<open>classifyResponse_taxonomy\<close>).
\<close>

theorem request_null_body_escapes_taxonomy:
  "request plainCredentials (\<lambda>_. Some (errorResponse 408 (Some JNull)))
      ''/statements'' (Some ''POST'') None None = Inl TypeError
   \<and> request plainCredentials (\<lambda>_. Some (errorResponse 422 (Some JNull)))
      ''/statements'' (Some ''POST'') None None = Inl TypeError
   \<and> request plainCredentials (\<lambda>_. Some (errorResponse 500 (Some JNull)))
      ''/statements'' (Some ''POST'') None None
     = Inl (ApiError (newSnowflakeApiError (JStr ''Snowflake API error: 500'') (Some 500)
         JUndefined False JUndefined))"
  by (simp add: request_def errorResponse_def classifyResponse_def js_bind_def response_ok_def
      errorMessage_def showNat.simps)

subsection \<open>C3: the page returned by a list operation\<close>

text \<open>
  The claim as stated fails on the code: the answer to \<open>SHOW DATABASES\<close> lists two
  partitions, so a further partition exists, and the page that \<open>listDatabases\<close> returns
  has \<open>hasMore\<close> \<open>false\<close>.
\<close>

theorem list_operations_hasMore_counterexample:
  "furtherPartitionExists (mapStatementResponse databasesFirstPartitionBody)
   \<and> listDatabases plainCredentials (\<lambda>_. Some databasesFirstPartition)
       = Inr (mapShowResultToDatabases (mapStatementResponse databasesFirstPartitionBody))
   \<and> pr_hasMore (mapShowResultToDatabases (mapStatementResponse databasesFirstPartitionBody))
       = False"
proof -
  have e: "executeStatement plainCredentials (\<lambda>_. Some databasesFirstPartition)
         (statementWithTimeout ''SHOW DATABASES'' 30)
       = Inr (mapStatementResponse databasesFirstPartitionBody)"
    by (rule executeStatement_ok [where response = databasesFirstPartition])
      (simp_all add: databasesFirstPartition_def response_ok_def)
  have a: "furtherPartitionExists (mapStatementResponse databasesFirstPartitionBody)"
    by (simp add: furtherPartitionExists_def mapStatementResponse_def
        databasesFirstPartitionBody_def)
  have b: "listDatabases plainCredentials (\<lambda>_. Some databasesFirstPartition)
       = Inr (mapShowResultToDatabases (mapStatementResponse databasesFirstPartitionBody))"
    by (simp add: listDatabases_def e js_bind_def)
  have c: "pr_hasMore (mapShowResultToDatabases
        (mapStatementResponse databasesFirstPartitionBody)) = False"
    by (simp add: mapShowResultToDatabases_def mapStatementResponse_def
        databasesFirstPartitionBody_def Let_def)
  from a b c show ?thesis by (intro conjI)
qed

text \<open>
  C3 (amended).  For each of the six list operations, when its statement returns a result
  that carries data and metadata, the operation returns a page in which \<open>count\<close> is
  the number of items, there is one item per data row, in order, \<open>total\<close> is
  \<open>numRows\<close>, and \<open>hasMore\<close> is \<open>false\<close> whatever \<open>partitionInfo\<close> says.
\<close>

theorem list_operations_page:
  assumes "res_data result = Some rows" and "res_resultSetMetaData result = Some metaData"
  shows
    "(executeStatement credentials fetch (statementWithTimeout ''SHOW DATABASES'' 30) = Inr result \<longrightarrow>
       (\<exists>page. listDatabases credentials fetch = Inr page
          \<and> pr_count page = length (pr_items page)
          \<and> pr_items page = map (databaseOfRow (buildColumnMap (md_rowType metaData))) rows
          \<and> pr_total page = Some (md_numRows metaData)
          \<and> pr_hasMore page = False))
   \<and> (executeStatement credentials fetch (statementWithTimeout (''SHOW SCHEMAS IN DATABASE '' @ dq @ database @ dq) 30) = Inr result \<longrightarrow>
       (\<exists>page. listSchemas credentials fetch database = Inr page
          \<and> pr_count page = length (pr_items page)
          \<and> pr_items page = map (schemaOfRow (buildColumnMap (md_rowType metaData)) database) rows
          \<and> pr_total page = Some (md_numRows metaData)
          \<and> pr_hasMore page = False))
   \<and> (executeStatement credentials fetch (statementWithTimeout (''SHOW TABLES IN '' @ dq @ database @ dq @ ''.'' @ dq @ schema @ dq) 30) = Inr result \<longrightarrow>
       (\<exists>page. listTables credentials fetch database schema = Inr page
          \<and> pr_count page = length (pr_items page)
          \<and> pr_items page = map (tableOfRow (buildColumnMap (md_rowType metaData)) database schema) rows
          \<and> pr_total page = Some (md_numRows metaData)
          \<and> pr_hasMore page = False))
   \<and> (executeStatement credentials fetch (statementWithTimeout (''SHOW VIEWS IN '' @ dq @ database @ dq @ ''.'' @ dq @ schema @ dq) 30) = Inr result \<longrightarrow>
       (\<exists>page. listViews credentials fetch database schema = Inr page
          \<and> pr_count page = length (pr_items page)
          \<and> pr_items page = map (viewOfRow (buildColumnMap (md_rowType metaData)) database schema) rows
          \<and> pr_total page = Some (md_numRows metaData)
          \<and> pr_hasMore page = False))
   \<and> (executeStatement credentials fetch (statementWithTimeout (''DESCRIBE TABLE '' @ dq @ database @ dq @ ''.'' @ dq @ schema @ dq @ ''.''
               @ dq @ table @ dq) 30) = Inr result \<longrightarrow>
       (\<exists>page. describeTable credentials fetch database schema table = Inr page
          \<and> pr_count page = length (pr_items page)
          \<and> pr_items page = map (columnOfRow (buildColumnMap (md_rowType metaData))) rows
          \<and> pr_total page = Some (md_numRows metaData)
          \<and> pr_hasMore page = False))
   \<and> (executeStatement credentials fetch (statementWithTimeout ''SHOW WAREHOUSES'' 30) = Inr result \<longrightarrow>
       (\<exists>page. listWarehouses credentials fetch = Inr page
          \<and> pr_count page = length (pr_items page)
          \<and> pr_items page = map (warehouseOfRow (buildColumnMap (md_rowType metaData))) rows
          \<and> pr_total page = Some (md_numRows metaData)
          \<and> pr_hasMore page = False))"
  by (simp add: listDatabases_def listSchemas_def listTables_def listViews_def
      describeTable_def listWarehouses_def js_bind_def
      mapShowResultToDatabases_Some [OF assms] mapShowResultToSchemas_Some [OF assms]
      mapShowResultToTables_Some [OF assms] mapShowResultToViews_Some [OF assms]
      mapDescribeResultToColumns_Some [OF assms] mapShowResultToWarehouses_Some [OF assms])

text \<open>
  \<open>listWarehouses\<close> against a network that answers with one warehouse.
\<close>

theorem list_operations_page_witness:
  "res_data (mapStatementResponse warehouseFoundBody) = Some [[''WH_XS'', ''STARTED'']]
   \<and> res_resultSetMetaData (mapStatementResponse warehouseFoundBody)
       = Some \<lparr> md_numRows = 1, md_format = None, md_partitionInfo = None,
                md_rowType = map mapColumn nameAndState \<rparr>
   \<and> executeStatement plainCredentials (\<lambda>_. Some warehouseFound)
         (statementWithTimeout ''SHOW WAREHOUSES'' 30)
       = Inr (mapStatementResponse warehouseFoundBody)
   \<and> (\<exists>page. listWarehouses plainCredentials (\<lambda>_. Some warehouseFound) = Inr page
         \<and> pr_count page = length (pr_items page)
         \<and> length (pr_items page) = 1
         \<and> pr_total page = Some 1
         \<and> pr_hasMore page = False)"
proof -
  let ?md = "\<lparr> md_numRows = 1, md_format = None, md_partitionInfo = None,
                md_rowType = map mapColumn nameAndState \<rparr>"
  have h1: "res_data (mapStatementResponse warehouseFoundBody) = Some [[''WH_XS'', ''STARTED'']]"
    by (simp add: mapStatementResponse_def warehouseFoundBody_def)
  have h2: "res_resultSetMetaData (mapStatementResponse warehouseFoundBody) = Some ?md"
    by (simp add: mapStatementResponse_def warehouseFoundBody_def)
  have h3: "executeStatement plainCredentials (\<lambda>_. Some warehouseFound)
         (statementWithTimeout ''SHOW WAREHOUSES'' 30)
       = Inr (mapStatementResponse warehouseFoundBody)"
    by (rule executeStatement_ok [where response = warehouseFound])
      (simp_all add: warehouseFound_def response_ok_def)
  note t = list_operations_page [OF h1 h2, where credentials = plainCredentials
      and fetch = "\<lambda>_. Some warehouseFound"]
  note w = t [THEN conjunct2, THEN conjunct2, THEN conjunct2, THEN conjunct2, THEN conjunct2,
      THEN mp, OF h3]
  from w have "\<exists>page. listWarehouses plainCredentials (\<lambda>_. Some warehouseFound) = Inr page
         \<and> pr_count page = length (pr_items page)
         \<and> length (pr_items page) = 1
         \<and> pr_total page = Some 1
         \<and> pr_hasMore page = False"
    by auto
  with h1 h2 h3 show ?thesis by (intro conjI)
qed

subsection \<open>C4: degenerate input\<close>

text \<open>
  C4.  A result without data or without metadata is mapped to the empty page by each of
  the six mappers.  The only optional field with a positional fallback is \<open>createdOn\<close>
  of a database (fallback 1): it is \<open>undefined\<close> when the row is too short.  In general
  a cell whose position, named or fallback, lies past the end of the row is
  \<open>undefined\<close>, and so is a number parsed from it.  The mappers have no failing branch:
  every read of a row is total.
\<close>

theorem mappers_total_on_degenerate_input:
  "(res_data result = None \<or> res_resultSetMetaData result = None \<longrightarrow>
      mapShowResultToDatabases result
        = \<lparr> pr_items = [], pr_count = 0, pr_total = None, pr_hasMore = False,
            pr_nextPartition = None \<rparr>
      \<and> mapShowResultToSchemas result database
        = \<lparr> pr_items = [], pr_count = 0, pr_total = None, pr_hasMore = False,
            pr_nextPartition = None \<rparr>
      \<and> mapShowResultToTables result database schema
        = \<lparr> pr_items = [], pr_count = 0, pr_total = None, pr_hasMore = False,
            pr_nextPartition = None \<rparr>
      \<and> mapShowResultToViews result database schema
        = \<lparr> pr_items = [], pr_count = 0, pr_total = None, pr_hasMore = False,
            pr_nextPartition = None \<rparr>
      \<and> mapDescribeResultToColumns result
        = \<lparr> pr_items = [], pr_count = 0, pr_total = None, pr_hasMore = False,
            pr_nextPartition = None \<rparr>
      \<and> mapShowResultToWarehouses result
        = \<lparr> pr_items = [], pr_count = 0, pr_total = None, pr_hasMore = False,
            pr_nextPartition = None \<rparr>)
   \<and> (columnMap ''created_on'' = None \<and> length row \<le> 1 \<longrightarrow>
        db_createdOn (databaseOfRow columnMap row) = None)
   \<and> (int (length row) \<le> (case columnMap key of None \<Rightarrow> fallback | Some i \<Rightarrow> int i) \<longrightarrow>
        cell row columnMap key fallback = None
        \<and> parseIntCell (cell row columnMap key fallback) = None)"
proof (intro conjI impI)
  assume d: "res_data result = None \<or> res_resultSetMetaData result = None"
  show "mapShowResultToDatabases result
        = \<lparr> pr_items = [], pr_count = 0, pr_total = None, pr_hasMore = False,
            pr_nextPartition = None \<rparr>"
    using mappers_degenerate(1) [OF d] by (simp add: emptyPage_def)
  show "mapShowResultToSchemas result database
        = \<lparr> pr_items = [], pr_count = 0, pr_total = None, pr_hasMore = False,
            pr_nextPartition = None \<rparr>"
    using mappers_degenerate(2) [OF d] by (simp add: emptyPage_def)
  show "mapShowResultToTables result database schema
        = \<lparr> pr_items = [], pr_count = 0, pr_total = None, pr_hasMore = False,
            pr_nextPartition = None \<rparr>"
    using mappers_degenerate(3) [OF d] by (simp add: emptyPage_def)
  show "mapShowResultToViews result database schema
        = \<lparr> pr_items = [], pr_count = 0, pr_total = None, pr_hasMore = False,
            pr_nextPartition = None \<rparr>"
    using mappers_degenerate(4) [OF d] by (simp add: emptyPage_def)
  show "mapDescribeResultToColumns result
        = \<lparr> pr_items = [], pr_count = 0, pr_total = None, pr_hasMore = False,
            pr_nextPartition = None \<rparr>"
    using mappers_degenerate(5) [OF d] by (simp add: emptyPage_def)
  show "mapShowResultToWarehouses result
        = \<lparr> pr_items = [], pr_count = 0, pr_total = None, pr_hasMore = False,
            pr_nextPartition = None \<rparr>"
    using mappers_degenerate(6) [OF d] by (simp add: emptyPage_def)
next
  assume "columnMap ''created_on'' = None \<and> length row \<le> 1"
  then show "db_createdOn (databaseOfRow columnMap row) = None"
    by (simp add: databaseOfRow_def cell_def js_index_def)
next
  assume h: "int (length row) \<le> (case columnMap key of None \<Rightarrow> fallback | Some i \<Rightarrow> int i)"
  then show "cell row columnMap key fallback = None" by (rule cell_out_of_range)
  then show "parseIntCell (cell row columnMap key fallback) = None"
    by (simp add: parseIntCell_def)
qed

text \<open>
  A result without data, and a row with one cell.
\<close>

theorem mappers_total_on_degenerate_input_witness:
  "res_data ((showResult [''name''] [] 0 None)\<lparr>res_data := None\<rparr>) = None
   \<and> mapShowResultToDatabases ((showResult [''name''] [] 0 None)\<lparr>res_data := None\<rparr>)
       = \<lparr> pr_items = [], pr_count = 0, pr_total = None, pr_hasMore = False,
           pr_nextPartition = None \<rparr>
   \<and> mapShowResultToWarehouses ((showResult [''name''] [] 0 None)\<lparr>res_data := None\<rparr>)
       = \<lparr> pr_items = [], pr_count = 0, pr_total = None, pr_hasMore = False,
           pr_nextPartition = None \<rparr>
   \<and> (Map.empty :: string \<rightharpoonup> nat) ''created_on'' = None
   \<and> length [''DB1''] \<le> 1
   \<and> db_createdOn (databaseOfRow Map.empty [''DB1'']) = None
   \<and> int (length [''DB1'']) \<le> (case (Map.empty(''owner'' \<mapsto> 4)) ''owner'' of
                                   None \<Rightarrow> - 1 | Some i \<Rightarrow> int i)
   \<and> cell [''DB1''] (Map.empty(''owner'' \<mapsto> 4)) ''owner'' (- 1) = None"
proof -
  let ?r = "(showResult [''name''] [] 0 None)\<lparr>res_data := None\<rparr>"
  have h1: "res_data ?r = None \<or> res_resultSetMetaData ?r = None" by simp
  have h2: "(Map.empty :: string \<rightharpoonup> nat) ''created_on'' = None \<and> length [''DB1''] \<le> 1"
    by simp
  have h3: "int (length [''DB1'']) \<le> (case (Map.empty(''owner'' \<mapsto> 4)) ''owner'' of
                                   None \<Rightarrow> - 1 | Some i \<Rightarrow> int i)"
    by simp
  note t1 = mappers_total_on_degenerate_input
    [where result = ?r, THEN conjunct1, THEN mp, OF h1]
  note t2 = mappers_total_on_degenerate_input
    [where columnMap = Map.empty and row = "[''DB1'']",
      THEN conjunct2, THEN conjunct1, THEN mp, OF h2]
  note t3 = mappers_total_on_degenerate_input
    [where row = "[''DB1'']" and columnMap = "Map.empty(''owner'' \<mapsto> 4)"
       and key = "''owner''" and fallback = "- 1",
      THEN conjunct2, THEN conjunct2, THEN mp, OF h3]
  from t1 t2 t3 h2 h3 show ?thesis by simp
qed

subsection \<open>C5: the request body\<close>

text \<open>
  The claim as stated fails on the code: an explicit empty database name gives way to the
  tenant default, and an explicit timeout of 0 becomes 60.
\<close>

theorem statement_body_falsy_counterexample:
  "req_database ((statementWithTimeout ''SELECT 1'' 0)\<lparr>req_database := Some ''''\<rparr>) = Some ''''
   \<and> body_database (executeStatement_body (plainCredentials\<lparr>cred_database := Some ''TENANT_DB''\<rparr>)
        ((statementWithTimeout ''SELECT 1'' 0)\<lparr>req_database := Some ''''\<rparr>)) = Some ''TENANT_DB''
   \<and> req_timeout ((statementWithTimeout ''SELECT 1'' 0)\<lparr>req_database := Some ''''\<rparr>) = Some 0
   \<and> body_timeout (executeStatement_body (plainCredentials\<lparr>cred_database := Some ''TENANT_DB''\<rparr>)
        ((statementWithTimeout ''SELECT 1'' 0)\<lparr>req_database := Some ''''\<rparr>)) = 60"
  by (simp add: executeStatement_body_def statementWithTimeout_def plainCredentials_def
      opt_or_def truthy_def timeout_or_def)

text \<open>
  C5 (amended).  The two operations build the same body and submit it.  For each of
  database, schema, warehouse and role the body holds the request's value when it is
  present and not empty, otherwise the credential default when it is present and not
  empty, otherwise no such field.  The timeout is the request's when it is given and not
  0, and 60 otherwise.
\<close>

theorem statement_body_context:
  "executeStatementAsync_body credentials req = executeStatement_body credentials req
   \<and> (truthy (req_database req) \<longrightarrow>
        body_database (executeStatement_body credentials req) = req_database req)
   \<and> (\<not> truthy (req_database req) \<and> truthy (cred_database credentials) \<longrightarrow>
        body_database (executeStatement_body credentials req) = cred_database credentials)
   \<and> (\<not> truthy (req_database req) \<and> \<not> truthy (cred_database credentials) \<longrightarrow>
        body_database (executeStatement_body credentials req) = None)
   \<and> (truthy (req_schema req) \<longrightarrow>
        body_schema (executeStatement_body credentials req) = req_schema req)
   \<and> (\<not> truthy (req_schema req) \<and> truthy (cred_schema credentials) \<longrightarrow>
        body_schema (executeStatement_body credentials req) = cred_schema credentials)
   \<and> (\<not> truthy (req_schema req) \<and> \<not> truthy (cred_schema credentials) \<longrightarrow>
        body_schema (executeStatement_body credentials req) = None)
   \<and> (truthy (req_warehouse req) \<longrightarrow>
        body_warehouse (executeStatement_body credentials req) = req_warehouse req)
   \<and> (\<not> truthy (req_warehouse req) \<and> truthy (cred_warehouse credentials) \<longrightarrow>
        body_warehouse (executeStatement_body credentials req) = cred_warehouse credentials)
   \<and> (\<not> truthy (req_warehouse req) \<and> \<not> truthy (cred_warehouse credentials) \<longrightarrow>
        body_warehouse (executeStatement_body credentials req) = None)
   \<and> (truthy (req_role req) \<longrightarrow>
        body_role (executeStatement_body credentials req) = req_role req)
   \<and> (\<not> truthy (req_role req) \<and> truthy (cred_role credentials) \<longrightarrow>
        body_role (executeStatement_body credentials req) = cred_role credentials)
   \<and> (\<not> truthy (req_role req) \<and> \<not> truthy (cred_role credentials) \<longrightarrow>
        body_role (executeStatement_body credentials req) = None)
   \<and> (\<forall>t. req_timeout req = Some t \<and> t \<noteq> 0 \<longrightarrow>
        body_timeout (executeStatement_body credentials req) = t)
   \<and> (req_timeout req = None \<or> req_timeout req = Some 0 \<longrightarrow>
        body_timeout (executeStatement_body credentials req) = 60)
   \<and> executeStatement credentials fetch req
       = (case fetch \<lparr> hreq_url = baseUrl credentials @ ''/statements'',
                       hreq_method = Some ''POST'',
                       hreq_headers = getAuthHeaders credentials,
                       hreq_body = Some (executeStatement_body credentials req) \<rparr> of
            None \<Rightarrow> Inl FetchRejected
          | Some response \<Rightarrow>
              js_bind (classifyResponse response) (\<lambda>r. Inr (mapStatementResponse r)))
   \<and> executeStatementAsync credentials fetch req
       = (case fetch \<lparr> hreq_url = baseUrl credentials @ ''/statements'' @ ''?async=true'',
                       hreq_method = Some ''POST'',
                       hreq_headers = getAuthHeaders credentials,
                       hreq_body = Some (executeStatementAsync_body credentials req) \<rparr> of
            None \<Rightarrow> Inl FetchRejected
          | Some response \<Rightarrow>
              js_bind (classifyResponse response) (\<lambda>r. Inr (mapStatementResponse r)))"
proof -
  have same: "executeStatementAsync_body credentials req = executeStatement_body credentials req"
    by (simp add: executeStatementAsync_body_def executeStatement_body_def)
  have db: "body_database (executeStatement_body credentials req)
      = (if truthy (opt_or (req_database req) (cred_database credentials))
         then opt_or (req_database req) (cred_database credentials) else None)"
    by (simp add: executeStatement_body_def)
  have sc: "body_schema (executeStatement_body credentials req)
      = (if truthy (opt_or (req_schema req) (cred_schema credentials))
         then opt_or (req_schema req) (cred_schema credentials) else None)"
    by (simp add: executeStatement_body_def)
  have wh: "body_warehouse (executeStatement_body credentials req)
      = (if truthy (opt_or (req_warehouse req) (cred_warehouse credentials))
         then opt_or (req_warehouse req) (cred_warehouse credentials) else None)"
    by (simp add: executeStatement_body_def)
  have ro: "body_role (executeStatement_body credentials req)
      = (if truthy (opt_or (req_role req) (cred_role credentials))
         then opt_or (req_role req) (cred_role credentials) else None)"
    by (simp add: executeStatement_body_def)
  have t1: "\<forall>t. req_timeout req = Some t \<and> t \<noteq> 0 \<longrightarrow>
        body_timeout (executeStatement_body credentials req) = t"
    by (simp add: executeStatement_body_def timeout_or_def)
  have t2: "req_timeout req = None \<or> req_timeout req = Some 0 \<longrightarrow>
        body_timeout (executeStatement_body credentials req) = 60"
    by (auto simp: executeStatement_body_def timeout_or_def)
  have e1: "executeStatement credentials fetch req
       = (case fetch \<lparr> hreq_url = baseUrl credentials @ ''/statements'',
                       hreq_method = Some ''POST'',
                       hreq_headers = getAuthHeaders credentials,
                       hreq_body = Some (executeStatement_body credentials req) \<rparr> of
            None \<Rightarrow> Inl FetchRejected
          | Some response \<Rightarrow>
              js_bind (classifyResponse response) (\<lambda>r. Inr (mapStatementResponse r)))"
    by (simp add: executeStatement_def request_def js_bind_def split: option.splits)
  have e2: "executeStatementAsync credentials fetch req
       = (case fetch \<lparr> hreq_url = baseUrl credentials @ ''/statements'' @ ''?async=true'',
                       hreq_method = Some ''POST'',
                       hreq_headers = getAuthHeaders credentials,
                       hreq_body = Some (executeStatementAsync_body credentials req) \<rparr> of
            None \<Rightarrow> Inl FetchRejected
          | Some response \<Rightarrow>
              js_bind (classifyResponse response) (\<lambda>r. Inr (mapStatementResponse r)))"
    by (simp add: executeStatementAsync_def request_def js_bind_def split: option.splits)
  note f1 = body_context_field [of "req_database req" "cred_database credentials", folded db]
  note f2 = body_context_field [of "req_schema req" "cred_schema credentials", folded sc]
  note f3 = body_context_field [of "req_warehouse req" "cred_warehouse credentials", folded wh]
  note f4 = body_context_field [of "req_role req" "cred_role credentials", folded ro]
  from same f1 f2 f3 f4 t1 t2 e1 e2 show ?thesis
    by (intro conjI) (elim conjE, assumption)+
qed

text \<open>
  An explicit database, a default schema, no role, and both timeouts.
\<close>

theorem statement_body_context_witness:
  "truthy (req_database ((statementWithTimeout ''SELECT 1'' 30)\<lparr>req_database := Some ''SALES''\<rparr>))
   \<and> body_database (executeStatement_body
         (plainCredentials\<lparr>cred_database := Some ''TENANT_DB'', cred_schema := Some ''PUBLIC''\<rparr>)
         ((statementWithTimeout ''SELECT 1'' 30)\<lparr>req_database := Some ''SALES''\<rparr>))
       = Some ''SALES''
   \<and> \<not> truthy (req_schema ((statementWithTimeout ''SELECT 1'' 30)\<lparr>req_database := Some ''SALES''\<rparr>))
   \<and> truthy (cred_schema
         (plainCredentials\<lparr>cred_database := Some ''TENANT_DB'', cred_schema := Some ''PUBLIC''\<rparr>))
   \<and> body_schema (executeStatement_body
         (plainCredentials\<lparr>cred_database := Some ''TENANT_DB'', cred_schema := Some ''PUBLIC''\<rparr>)
         ((statementWithTimeout ''SELECT 1'' 30)\<lparr>req_database := Some ''SALES''\<rparr>))
       = Some ''PUBLIC''
   \<and> \<not> truthy (req_role ((statementWithTimeout ''SELECT 1'' 30)\<lparr>req_database := Some ''SALES''\<rparr>))
   \<and> \<not> truthy (cred_role
         (plainCredentials\<lparr>cred_database := Some ''TENANT_DB'', cred_schema := Some ''PUBLIC''\<rparr>))
   \<and> body_role (executeStatementAsync_body
         (plainCredentials\<lparr>cred_database := Some ''TENANT_DB'', cred_schema := Some ''PUBLIC''\<rparr>)
         ((statementWithTimeout ''SELECT 1'' 30)\<lparr>req_database := Some ''SALES''\<rparr>))
       = None
   \<and> req_timeout ((statementWithTimeout ''SELECT 1'' 30)\<lparr>req_database := Some ''SALES''\<rparr>)
       = Some 30
   \<and> body_timeout (executeStatement_body
         (plainCredentials\<lparr>cred_database := Some ''TENANT_DB'', cred_schema := Some ''PUBLIC''\<rparr>)
         ((statementWithTimeout ''SELECT 1'' 30)\<lparr>req_database := Some ''SALES''\<rparr>))
       = 30
   \<and> req_timeout ((statementWithTimeout ''SELECT 1'' 30)\<lparr>req_timeout := None\<rparr>) = None
   \<and> body_timeout (executeStatement_body plainCredentials
         ((statementWithTimeout ''SELECT 1'' 30)\<lparr>req_timeout := None\<rparr>))
       = 60"
proof -
  let ?c = "plainCredentials\<lparr>cred_database := Some ''TENANT_DB'', cred_schema := Some ''PUBLIC''\<rparr>"
  let ?r = "(statementWithTimeout ''SELECT 1'' 30)\<lparr>req_database := Some ''SALES''\<rparr>"
  let ?r' = "(statementWithTimeout ''SELECT 1'' 30)\<lparr>req_timeout := None\<rparr>"
  have h1: "truthy (req_database ?r)"
    by (simp add: statementWithTimeout_def truthy_def)
  have h2: "\<not> truthy (req_schema ?r)" "truthy (cred_schema ?c)"
    by (simp_all add: statementWithTimeout_def plainCredentials_def truthy_def)
  have h3: "\<not> truthy (req_role ?r)" "\<not> truthy (cred_role ?c)"
    by (simp_all add: statementWithTimeout_def plainCredentials_def truthy_def)
  have h4: "req_timeout ?r = Some 30" "(30::int) \<noteq> 0"
    by (simp_all add: statementWithTimeout_def)
  have h5: "req_timeout ?r' = None"
    by (simp add: statementWithTimeout_def)
  have db: "req_database ?r = Some ''SALES''" and sc: "cred_schema ?c = Some ''PUBLIC''"
    by (simp_all add: statementWithTimeout_def plainCredentials_def)
  from statement_body_context [of ?c ?r "\<lambda>_. None"]
    statement_body_context [of plainCredentials ?r' "\<lambda>_. None"]
    h1 h2 h3 h4 h5 db sc
  show ?thesis by simp
qed

subsection \<open>C6: case-insensitive column lookup\<close>

text \<open>
  The claim as stated fails on the code when two columns have the same name up to case:
  the column named \<open>Name\<close> is at position 0, and its lower-cased name resolves to
  position 1.  Besides, a key that is not lower-cased resolves to no position (the mappers
  only look up lower-case keys), and a column named \<open>__proto__\<close> in any casing is not
  entered in the map.
\<close>

theorem buildColumnMap_duplicate_counterexample:
  "cmd_name ([textColumn ''Name'', textColumn ''NAME''] ! 0) = ''Name''
   \<and> buildColumnMap [textColumn ''Name'', textColumn ''NAME''] (toLowerCase ''Name'') = Some 1
   \<and> buildColumnMap [textColumn ''Name''] ''NAME'' = None
   \<and> buildColumnMap [textColumn ''__PROTO__''] (toLowerCase ''__PROTO__'') = None"
  by code_simp

text \<open>
  C6 (amended).  Let the column at position \<open>i\<close> of \<open>rowType\<close> be named by any casing
  variant of a name whose lower-cased form is not \<open>__proto__\<close>.  Then the column map does
  not depend on which variant is used; the lower-cased name resolves to the position of the
  last column of \<open>rowType\<close> that has this name up to case; and it resolves to \<open>i\<close> itself
  when no later column has this name up to case.
\<close>

theorem buildColumnMap_case_insensitive:
  assumes "i < length rowType"
    and "toLowerCase variant = toLowerCase (cmd_name (rowType ! i))"
    and "toLowerCase variant \<noteq> ''__proto__''"
  shows "buildColumnMap (rowType[i := (rowType ! i)\<lparr>cmd_name := variant\<rparr>]) = buildColumnMap rowType
     \<and> (\<exists>j. i \<le> j \<and> j < length rowType
            \<and> toLowerCase (cmd_name (rowType ! j)) = toLowerCase variant
            \<and> (\<forall>k. j < k \<and> k < length rowType \<longrightarrow>
                  toLowerCase (cmd_name (rowType ! k)) \<noteq> toLowerCase variant)
            \<and> buildColumnMap rowType (toLowerCase variant) = Some j)
     \<and> ((\<forall>k. i < k \<and> k < length rowType \<longrightarrow>
            toLowerCase (cmd_name (rowType ! k)) \<noteq> toLowerCase variant)
          \<longrightarrow> buildColumnMap rowType (toLowerCase variant) = Some i)"
proof (intro conjI impI)
  have "lowerNames (rowType[i := (rowType ! i)\<lparr>cmd_name := variant\<rparr>]) = lowerNames rowType"
    using assms(1,2) by (simp add: lowerNames_def list_eq_iff_nth_eq nth_list_update)
  then show "buildColumnMap (rowType[i := (rowType ! i)\<lparr>cmd_name := variant\<rparr>]) = buildColumnMap rowType"
    unfolding buildColumnMap_def by (rule buildColumnMap_names)
next
  have len: "i < length (lowerNames rowType)" using assms(1) by (simp add: lowerNames_def)
  have at: "lowerNames rowType ! i = toLowerCase variant"
    using assms(1,2) by (simp add: lowerNames_def)
  from last_occurrence[OF len at] obtain j where j: "i \<le> j" "j < length (lowerNames rowType)"
    "lowerNames rowType ! j = toLowerCase variant"
    "\<forall>k. j < k \<and> k < length (lowerNames rowType) \<longrightarrow> lowerNames rowType ! k \<noteq> toLowerCase variant"
    by blast
  have jl: "j < length rowType" using j(2) by (simp add: lowerNames_def)
  have jl': "\<forall>k. j < k \<and> k < length rowType \<longrightarrow> lowerNames rowType ! k \<noteq> toLowerCase variant"
    using j(4) by (simp add: lowerNames_def)
  have "buildColumnMap rowType (toLowerCase variant) = Some (0 + j)"
    unfolding buildColumnMap_def
    by (rule buildColumnMap_from_last[OF assms(3) jl j(3) jl'])
  moreover have "toLowerCase (cmd_name (rowType ! j)) = toLowerCase variant"
    using j(3) jl by (simp add: lowerNames_def)
  moreover have "\<forall>k. j < k \<and> k < length rowType \<longrightarrow>
                  toLowerCase (cmd_name (rowType ! k)) \<noteq> toLowerCase variant"
    using jl' by (simp add: lowerNames_def)
  ultimately show "\<exists>j. i \<le> j \<and> j < length rowType
            \<and> toLowerCase (cmd_name (rowType ! j)) = toLowerCase variant
            \<and> (\<forall>k. j < k \<and> k < length rowType \<longrightarrow>
                  toLowerCase (cmd_name (rowType ! k)) \<noteq> toLowerCase variant)
            \<and> buildColumnMap rowType (toLowerCase variant) = Some j"
    using j(1) jl by auto
next
  assume h: "\<forall>k. i < k \<and> k < length rowType \<longrightarrow>
            toLowerCase (cmd_name (rowType ! k)) \<noteq> toLowerCase variant"
  have at: "lowerNames rowType ! i = toLowerCase variant"
    using assms(1,2) by (simp add: lowerNames_def)
  have h': "\<forall>k. i < k \<and> k < length rowType \<longrightarrow> lowerNames rowType ! k \<noteq> toLowerCase variant"
    using h by (simp add: lowerNames_def)
  have "buildColumnMap rowType (toLowerCase variant) = Some (0 + i)"
    unfolding buildColumnMap_def
    by (rule buildColumnMap_from_last[OF assms(3) assms(1) at h'])
  then show "buildColumnMap rowType (toLowerCase variant) = Some i" by simp
qed

text \<open>
  A row type whose second column is named \<open>Name\<close>, with the variant \<open>NAME\<close>.
\<close>

theorem buildColumnMap_case_insensitive_witness:
  "(1::nat) < length [textColumn ''created_on'', textColumn ''Name'', textColumn ''owner'']
   \<and> toLowerCase ''NAME''
       = toLowerCase (cmd_name ([textColumn ''created_on'', textColumn ''Name'', textColumn ''owner''] ! 1))
   \<and> toLowerCase ''NAME'' \<noteq> ''__proto__''
   \<and> buildColumnMap [textColumn ''created_on'', textColumn ''NAME'', textColumn ''owner'']
       = buildColumnMap [textColumn ''created_on'', textColumn ''Name'', textColumn ''owner'']
   \<and> buildColumnMap [textColumn ''created_on'', textColumn ''Name'', textColumn ''owner'']
        ''name'' = Some 1"
proof -
  let ?rowType = "[textColumn ''created_on'', textColumn ''Name'', textColumn ''owner'']"
  have l: "toLowerCase ''NAME'' = ''name''" "toLowerCase ''Name'' = ''name''"
    "toLowerCase ''owner'' = ''owner''"
    by code_simp+
  have h1: "(1::nat) < length ?rowType" by simp
  have h2: "toLowerCase ''NAME'' = toLowerCase (cmd_name (?rowType ! 1))"
    by (simp add: l textColumn_def)
  have h3: "toLowerCase ''NAME'' \<noteq> ''__proto__''" by (simp add: l)
  have h4: "\<forall>k. 1 < k \<and> k < length ?rowType \<longrightarrow>
              toLowerCase (cmd_name (?rowType ! k)) \<noteq> toLowerCase ''NAME''"
    by (auto simp: l textColumn_def less_Suc_eq numeral_3_eq_3)
  from buildColumnMap_case_insensitive [OF h1 h2 h3] h4 h1 h2 h3
  show ?thesis by (simp add: l textColumn_def)
qed

subsection \<open>C7: the warehouse round trip\<close>

text \<open>
  C7.  A result whose columns are named \<open>name, state, size, running, queued\<close> and whose
  only row is \<open>WH_XS, SUSPENDED, XSMALL, 0, 0\<close> is mapped to exactly one warehouse, with
  that name and state, and with \<open>running\<close> and \<open>queued\<close> present and equal to 0.
\<close>

theorem show_warehouses_round_trip:
  assumes "res_data result = Some [[''WH_XS'', ''SUSPENDED'', ''XSMALL'', ''0'', ''0'']]"
    and "res_resultSetMetaData result = Some metaData"
    and "map cmd_name (md_rowType metaData) = [''name'', ''state'', ''size'', ''running'', ''queued'']"
  shows "\<exists>w. pr_items (mapShowResultToWarehouses result) = [w]
           \<and> pr_count (mapShowResultToWarehouses result) = 1
           \<and> wh_name w = ''WH_XS'' \<and> wh_state w = ''SUSPENDED'' \<and> wh_size w = Some ''XSMALL''
           \<and> wh_running w = Some (Num 0) \<and> wh_queued w = Some (Num 0)"
proof -
  let ?cm = "buildColumnMap (map textColumn [''name'', ''state'', ''size'', ''running'', ''queued''])"
  let ?row = "[''WH_XS'', ''SUSPENDED'', ''XSMALL'', ''0'', ''0'']"
  have cm: "buildColumnMap (md_rowType metaData) = ?cm"
    using assms(3) by (rule buildColumnMap_by_names)
  have items: "pr_items (mapShowResultToWarehouses result) = [warehouseOfRow ?cm ?row]"
    and count: "pr_count (mapShowResultToWarehouses result) = 1"
    by (simp_all add: mapShowResultToWarehouses_Some [OF assms(1,2)] cm)
  have "wh_name (warehouseOfRow ?cm ?row) = ''WH_XS''" by code_simp
  moreover have "wh_state (warehouseOfRow ?cm ?row) = ''SUSPENDED''" by code_simp
  moreover have "wh_size (warehouseOfRow ?cm ?row) = Some ''XSMALL''" by code_simp
  moreover have "wh_running (warehouseOfRow ?cm ?row) = Some (Num 0)" by code_simp
  moreover have "wh_queued (warehouseOfRow ?cm ?row) = Some (Num 0)" by code_simp
  ultimately show ?thesis using items count by (intro exI conjI)
qed

text \<open>
  The synthetic response itself.
\<close>

theorem show_warehouses_round_trip_witness:
  "res_data (showResult [''name'', ''state'', ''size'', ''running'', ''queued'']
       [[''WH_XS'', ''SUSPENDED'', ''XSMALL'', ''0'', ''0'']] 1 None)
     = Some [[''WH_XS'', ''SUSPENDED'', ''XSMALL'', ''0'', ''0'']]
   \<and> (\<exists>w. pr_items (mapShowResultToWarehouses
         (showResult [''name'', ''state'', ''size'', ''running'', ''queued'']
            [[''WH_XS'', ''SUSPENDED'', ''XSMALL'', ''0'', ''0'']] 1 None)) = [w]
       \<and> wh_name w = ''WH_XS'' \<and> wh_state w = ''SUSPENDED''
       \<and> wh_running w = Some (Num 0) \<and> wh_queued w = Some (Num 0))"
proof -
  let ?r = "showResult [''name'', ''state'', ''size'', ''running'', ''queued'']
       [[''WH_XS'', ''SUSPENDED'', ''XSMALL'', ''0'', ''0'']] 1 None"
  let ?md = "\<lparr> md_numRows = 1, md_format = Some ''jsonv2'', md_partitionInfo = None,
       md_rowType = map textColumn [''name'', ''state'', ''size'', ''running'', ''queued''] \<rparr>"
  have h1: "res_data ?r = Some [[''WH_XS'', ''SUSPENDED'', ''XSMALL'', ''0'', ''0'']]"
    by (simp add: showResult_def)
  have h2: "res_resultSetMetaData ?r = Some ?md"
    by (simp add: showResult_def)
  have h3: "map cmd_name (md_rowType ?md) = [''name'', ''state'', ''size'', ''running'', ''queued'']"
    by (simp add: textColumn_def)
  from show_warehouses_round_trip [OF h1 h2 h3] h1 show ?thesis by blast
qed

subsection \<open>C8: credential extraction\<close>

text \<open>
  C8.  Parsing followed by validation yields credentials exactly when the account and
  token headers are both present and not empty, and then yields the parsed ones.  A missing
  or empty account is reported by the account message, also when the token is missing; a
  missing or empty token alone is reported by the token message.  An absent optional header
  leaves its field \<open>undefined\<close>.
\<close>

theorem credential_extraction:
  "((\<exists>credentials. extractCredentials headers = Inr credentials) \<longleftrightarrow>
      truthy (headers_get headers ''X-Snowflake-Account'')
      \<and> truthy (headers_get headers ''X-Snowflake-Token''))
   \<and> (truthy (headers_get headers ''X-Snowflake-Account'')
      \<and> truthy (headers_get headers ''X-Snowflake-Token'') \<longrightarrow>
        extractCredentials headers = Inr (parseTenantCredentials headers)
        \<and> headers_get headers ''X-Snowflake-Account''
            = Some (cred_account (parseTenantCredentials headers))
        \<and> headers_get headers ''X-Snowflake-Token''
            = Some (cred_token (parseTenantCredentials headers)))
   \<and> (\<not> truthy (headers_get headers ''X-Snowflake-Account'') \<longrightarrow>
        extractCredentials headers = Inl (PlainError
          ''Missing X-Snowflake-Account header. Provide your Snowflake account identifier.''))
   \<and> (truthy (headers_get headers ''X-Snowflake-Account'')
      \<and> \<not> truthy (headers_get headers ''X-Snowflake-Token'') \<longrightarrow>
        extractCredentials headers = Inl (PlainError
          ''Missing X-Snowflake-Token header. Provide your JWT token for authentication.''))
   \<and> (headers_get headers ''X-Snowflake-Warehouse'' = None \<longrightarrow>
        cred_warehouse (parseTenantCredentials headers) = None)
   \<and> (headers_get headers ''X-Snowflake-Database'' = None \<longrightarrow>
        cred_database (parseTenantCredentials headers) = None)
   \<and> (headers_get headers ''X-Snowflake-Schema'' = None \<longrightarrow>
        cred_schema (parseTenantCredentials headers) = None)
   \<and> (headers_get headers ''X-Snowflake-Role'' = None \<longrightarrow>
        cred_role (parseTenantCredentials headers) = None)"
proof -
  let ?a = "headers_get headers ''X-Snowflake-Account''"
  let ?t = "headers_get headers ''X-Snowflake-Token''"
  let ?c = "parseTenantCredentials headers"
  have acc: "cred_account ?c = or_empty ?a" and tok: "cred_token ?c = or_empty ?t"
    by (simp_all add: parseTenantCredentials_def)
  have ex: "extractCredentials headers =
      (if cred_account ?c = [] then Inl (PlainError
          ''Missing X-Snowflake-Account header. Provide your Snowflake account identifier.'')
       else if cred_token ?c = [] then Inl (PlainError
          ''Missing X-Snowflake-Token header. Provide your JWT token for authentication.'')
       else Inr ?c)"
    by (simp add: extractCredentials_def validateCredentials_def js_bind_def Let_def)
  have a0: "cred_account ?c = [] \<longleftrightarrow> \<not> truthy ?a"
    by (simp add: acc or_empty_falsy)
  have t0: "cred_token ?c = [] \<longleftrightarrow> \<not> truthy ?t"
    by (simp add: tok or_empty_falsy)
  have p1: "(\<exists>credentials. extractCredentials headers = Inr credentials) \<longleftrightarrow>
      truthy ?a \<and> truthy ?t"
    by (simp add: ex a0 t0)
  have p2: "truthy ?a \<and> truthy ?t \<longrightarrow>
        extractCredentials headers = Inr ?c \<and> ?a = Some (cred_account ?c)
        \<and> ?t = Some (cred_token ?c)"
  proof (intro impI conjI)
    assume h: "truthy ?a \<and> truthy ?t"
    then have na: "cred_account ?c \<noteq> []" and nt: "cred_token ?c \<noteq> []"
      using a0 t0 by blast+
    show "extractCredentials headers = Inr ?c"
      unfolding ex using na nt by simp
    show "?a = Some (cred_account ?c)"
      unfolding acc using h by (intro or_empty_Some) simp
    show "?t = Some (cred_token ?c)"
      unfolding tok using h by (intro or_empty_Some) simp
  qed
  have p3: "\<not> truthy ?a \<longrightarrow>
        extractCredentials headers = Inl (PlainError
          ''Missing X-Snowflake-Account header. Provide your Snowflake account identifier.'')"
    by (simp add: ex a0)
  have p4: "truthy ?a \<and> \<not> truthy ?t \<longrightarrow>
        extractCredentials headers = Inl (PlainError
          ''Missing X-Snowflake-Token header. Provide your JWT token for authentication.'')"
    by (simp add: ex a0 t0)
  have p5: "headers_get headers ''X-Snowflake-Warehouse'' = None \<longrightarrow> cred_warehouse ?c = None"
    by (simp add: parseTenantCredentials_def or_undefined_def truthy_def)
  have p6: "headers_get headers ''X-Snowflake-Database'' = None \<longrightarrow> cred_database ?c = None"
    by (simp add: parseTenantCredentials_def or_undefined_def truthy_def)
  have p7: "headers_get headers ''X-Snowflake-Schema'' = None \<longrightarrow> cred_schema ?c = None"
    by (simp add: parseTenantCredentials_def or_undefined_def truthy_def)
  have p8: "headers_get headers ''X-Snowflake-Role'' = None \<longrightarrow> cred_role ?c = None"
    by (simp add: parseTenantCredentials_def or_undefined_def truthy_def)
  from p1 p2 p3 p4 p5 p6 p7 p8 show ?thesis by (intro conjI)
qed

text \<open>
  Both headers, the token only, none, and the account only.
\<close>

theorem credential_extraction_witness:
  "truthy (headers_get [''x-snowflake-account'' \<mapsto> ''acme'', ''x-snowflake-token'' \<mapsto> ''jwt'']
       ''X-Snowflake-Account'')
   \<and> truthy (headers_get [''x-snowflake-account'' \<mapsto> ''acme'', ''x-snowflake-token'' \<mapsto> ''jwt'']
       ''X-Snowflake-Token'')
   \<and> extractCredentials [''x-snowflake-account'' \<mapsto> ''acme'', ''x-snowflake-token'' \<mapsto> ''jwt'']
       = Inr (parseTenantCredentials
           [''x-snowflake-account'' \<mapsto> ''acme'', ''x-snowflake-token'' \<mapsto> ''jwt''])
   \<and> headers_get [''x-snowflake-account'' \<mapsto> ''acme'', ''x-snowflake-token'' \<mapsto> ''jwt'']
       ''X-Snowflake-Warehouse'' = None
   \<and> cred_warehouse (parseTenantCredentials
         [''x-snowflake-account'' \<mapsto> ''acme'', ''x-snowflake-token'' \<mapsto> ''jwt'']) = None
   \<and> \<not> truthy (headers_get [''x-snowflake-token'' \<mapsto> ''jwt''] ''X-Snowflake-Account'')
   \<and> extractCredentials [''x-snowflake-token'' \<mapsto> ''jwt'']
       = Inl (PlainError
          ''Missing X-Snowflake-Account header. Provide your Snowflake account identifier.'')
   \<and> extractCredentials Map.empty
       = Inl (PlainError
          ''Missing X-Snowflake-Account header. Provide your Snowflake account identifier.'')
   \<and> truthy (headers_get [''x-snowflake-account'' \<mapsto> ''acme''] ''X-Snowflake-Account'')
   \<and> \<not> truthy (headers_get [''x-snowflake-account'' \<mapsto> ''acme''] ''X-Snowflake-Token'')
   \<and> extractCredentials [''x-snowflake-account'' \<mapsto> ''acme'']
       = Inl (PlainError
          ''Missing X-Snowflake-Token header. Provide your JWT token for authentication.'')"
proof -
  let ?both = "[''x-snowflake-account'' \<mapsto> ''acme'', ''x-snowflake-token'' \<mapsto> ''jwt'']"
  let ?tok = "[''x-snowflake-token'' \<mapsto> ''jwt'']"
  let ?acc = "[''x-snowflake-account'' \<mapsto> ''acme'']"
  have lower: "toLowerCase ''X-Snowflake-Account'' = ''x-snowflake-account''"
    "toLowerCase ''X-Snowflake-Token'' = ''x-snowflake-token''"
    "toLowerCase ''X-Snowflake-Warehouse'' = ''x-snowflake-warehouse''"
    by code_simp+
  have b1: "truthy (headers_get ?both ''X-Snowflake-Account'')"
    and b2: "truthy (headers_get ?both ''X-Snowflake-Token'')"
    and b3: "headers_get ?both ''X-Snowflake-Warehouse'' = None"
    by (simp_all add: headers_get_def lower truthy_def)
  have k1: "\<not> truthy (headers_get ?tok ''X-Snowflake-Account'')"
    and e1: "\<not> truthy (headers_get Map.empty ''X-Snowflake-Account'')"
    by (simp_all add: headers_get_def lower truthy_def)
  have a1: "truthy (headers_get ?acc ''X-Snowflake-Account'')"
    and a2: "\<not> truthy (headers_get ?acc ''X-Snowflake-Token'')"
    by (simp_all add: headers_get_def lower truthy_def)
  note c = credential_extraction [of ?both]
  note c2 = c [THEN conjunct2, THEN conjunct1, THEN mp, OF conjI [OF b1 b2], THEN conjunct1]
  note c5 = c [THEN conjunct2, THEN conjunct2, THEN conjunct2, THEN conjunct2, THEN conjunct1,
      THEN mp, OF b3]
  note k = credential_extraction [of ?tok, THEN conjunct2, THEN conjunct2, THEN conjunct1,
      THEN mp, OF k1]
  note e = credential_extraction [of Map.empty, THEN conjunct2, THEN conjunct2, THEN conjunct1,
      THEN mp, OF e1]
  note a = credential_extraction [of ?acc, THEN conjunct2, THEN conjunct2, THEN conjunct2,
      THEN conjunct1, THEN mp, OF conjI [OF a1 a2]]
  show ?thesis
    by (intro conjI) (fact b1 b2 c2 b3 c5 k1 k e a1 a2 a)+
qed

subsection \<open>C9: warehouse lookup\<close>

text \<open>
  C9.  \<open>getWarehouseStatus\<close> fails with an error of code \<open>NOT_FOUND\<close>, status 404,
  not retryable, exactly when the statement succeeded and its result maps to no warehouse;
  when it maps to at least one, the first is returned.
\<close>

theorem getWarehouseStatus_not_found:
  "((\<exists>e. getWarehouseStatus credentials fetch warehouseName = Inl e \<and> isNotFound e) \<longleftrightarrow>
      (\<exists>result. executeStatement credentials fetch
           (statementWithTimeout (''SHOW WAREHOUSES LIKE '' @ sq @ warehouseName @ sq) 30)
             = Inr result
         \<and> pr_items (mapShowResultToWarehouses result) = []))
   \<and> (\<forall>result. executeStatement credentials fetch
           (statementWithTimeout (''SHOW WAREHOUSES LIKE '' @ sq @ warehouseName @ sq) 30)
             = Inr result
         \<and> pr_items (mapShowResultToWarehouses result) = [] \<longrightarrow>
        getWarehouseStatus credentials fetch warehouseName
          = Inl (ApiError (newSnowflakeApiError
              (JStr (''Warehouse '' @ sq @ warehouseName @ sq @ '' not found''))
              (Some 404) (JStr ''NOT_FOUND'') False JUndefined)))
   \<and> (\<forall>result. executeStatement credentials fetch
           (statementWithTimeout (''SHOW WAREHOUSES LIKE '' @ sq @ warehouseName @ sq) 30)
             = Inr result
         \<and> pr_items (mapShowResultToWarehouses result) \<noteq> [] \<longrightarrow>
        getWarehouseStatus credentials fetch warehouseName
          = Inr (hd (pr_items (mapShowResultToWarehouses result))))"
proof -
  let ?req = "statementWithTimeout (''SHOW WAREHOUSES LIKE '' @ sq @ warehouseName @ sq) 30"
  let ?miss = "ApiError (newSnowflakeApiError
              (JStr (''Warehouse '' @ sq @ warehouseName @ sq @ '' not found''))
              (Some 404) (JStr ''NOT_FOUND'') False JUndefined)"
  have inr: "\<And>result. executeStatement credentials fetch ?req = Inr result \<Longrightarrow>
      getWarehouseStatus credentials fetch warehouseName =
        (if pr_items (mapShowResultToWarehouses result) = [] then Inl ?miss
         else Inr (hd (pr_items (mapShowResultToWarehouses result))))"
    by (simp add: getWarehouseStatus_def js_bind_def Let_def hd_conv_nth)
  have inl: "\<And>e. executeStatement credentials fetch ?req = Inl e \<Longrightarrow>
      getWarehouseStatus credentials fetch warehouseName = Inl e"
    by (simp add: getWarehouseStatus_def js_bind_def)
  have a: "(\<exists>e. getWarehouseStatus credentials fetch warehouseName = Inl e \<and> isNotFound e) \<longleftrightarrow>
      (\<exists>result. executeStatement credentials fetch ?req = Inr result
         \<and> pr_items (mapShowResultToWarehouses result) = [])"
  proof (cases "executeStatement credentials fetch ?req")
    case (Inl e)
    from inl [OF Inl] executeStatement_not_NotFound [OF Inl] Inl show ?thesis by simp
  next
    case (Inr result)
    from inr [OF Inr] Inr isNotFound_lookup_miss show ?thesis by auto
  qed
  have b: "\<forall>result. executeStatement credentials fetch ?req = Inr result
         \<and> pr_items (mapShowResultToWarehouses result) = [] \<longrightarrow>
        getWarehouseStatus credentials fetch warehouseName = Inl ?miss"
    using inr by simp
  have c: "\<forall>result. executeStatement credentials fetch ?req = Inr result
         \<and> pr_items (mapShowResultToWarehouses result) \<noteq> [] \<longrightarrow>
        getWarehouseStatus credentials fetch warehouseName
          = Inr (hd (pr_items (mapShowResultToWarehouses result)))"
    using inr by simp
  from a b c show ?thesis by (intro conjI)
qed

text \<open>
  A lookup that finds nothing and one that finds \<open>WH_XS\<close>.
\<close>

theorem getWarehouseStatus_not_found_witness:
  "executeStatement plainCredentials (\<lambda>_. Some warehouseMissing)
       (statementWithTimeout (''SHOW WAREHOUSES LIKE '' @ sq @ ''WH_NONE'' @ sq) 30)
     = Inr (mapStatementResponse warehouseMissingBody)
   \<and> pr_items (mapShowResultToWarehouses
         (mapStatementResponse warehouseMissingBody)) = []
   \<and> getWarehouseStatus plainCredentials (\<lambda>_. Some warehouseMissing) ''WH_NONE''
       = Inl (ApiError (newSnowflakeApiError
              (JStr (''Warehouse '' @ sq @ ''WH_NONE'' @ sq @ '' not found''))
              (Some 404) (JStr ''NOT_FOUND'') False JUndefined))
   \<and> executeStatement plainCredentials (\<lambda>_. Some warehouseFound)
       (statementWithTimeout (''SHOW WAREHOUSES LIKE '' @ sq @ ''WH_XS'' @ sq) 30)
     = Inr (mapStatementResponse warehouseFoundBody)
   \<and> pr_items (mapShowResultToWarehouses
         (mapStatementResponse warehouseFoundBody)) \<noteq> []
   \<and> getWarehouseStatus plainCredentials (\<lambda>_. Some warehouseFound) ''WH_XS''
       = Inr (hd (pr_items (mapShowResultToWarehouses
           (mapStatementResponse warehouseFoundBody))))
   \<and> wh_name (hd (pr_items (mapShowResultToWarehouses
           (mapStatementResponse warehouseFoundBody)))) = ''WH_XS''"
proof -
  let ?miss = "mapStatementResponse warehouseMissingBody"
  let ?hit = "mapStatementResponse warehouseFoundBody"
  have m1: "executeStatement plainCredentials (\<lambda>_. Some warehouseMissing)
       (statementWithTimeout (''SHOW WAREHOUSES LIKE '' @ sq @ ''WH_NONE'' @ sq) 30) = Inr ?miss"
    by (rule executeStatement_ok [where response = warehouseMissing])
      (simp_all add: warehouseMissing_def response_ok_def)
  have m2: "pr_items (mapShowResultToWarehouses ?miss) = []"
    by (simp add: warehouseMissingBody_def mapStatementResponse_def
        mapShowResultToWarehouses_def Let_def)
  have f1: "executeStatement plainCredentials (\<lambda>_. Some warehouseFound)
       (statementWithTimeout (''SHOW WAREHOUSES LIKE '' @ sq @ ''WH_XS'' @ sq) 30) = Inr ?hit"
    by (rule executeStatement_ok [where response = warehouseFound])
      (simp_all add: warehouseFound_def response_ok_def)
  have f2: "pr_items (mapShowResultToWarehouses ?hit) \<noteq> []"
    by (simp add: warehouseFoundBody_def mapStatementResponse_def
        mapShowResultToWarehouses_def Let_def)
  have f3: "wh_name (hd (pr_items (mapShowResultToWarehouses ?hit))) = ''WH_XS''"
    by code_simp
  note t = getWarehouseStatus_not_found
  note tm = t [where credentials = plainCredentials and fetch = "\<lambda>_. Some warehouseMissing"
      and warehouseName = "''WH_NONE''", THEN conjunct2, THEN conjunct1, THEN spec,
      THEN mp, OF conjI [OF m1 m2]]
  note tf = t [where credentials = plainCredentials and fetch = "\<lambda>_. Some warehouseFound"
      and warehouseName = "''WH_XS''", THEN conjunct2, THEN conjunct2, THEN spec,
      THEN mp, OF conjI [OF f1 f2]]
  show ?thesis
    by (intro conjI) (fact m1 m2 tm f1 f2 tf f3)+
qed

subsection \<open>C10: the defaults of a warehouse\<close>

text \<open>
  C10.  Every mapped warehouse has a non-empty state.  When the state column is absent
  and the row has no cell at position 1, or when the state cell is the empty string, the
  state is \<open>SUSPENDED\<close>; in the same situations for the name (fallback 0) the name is
  the empty string.
\<close>

theorem warehouse_state_default:
  "(\<forall>w \<in> set (pr_items (mapShowResultToWarehouses result)). wh_state w \<noteq> [])
   \<and> wh_state (warehouseOfRow columnMap row) \<noteq> []
   \<and> (columnMap ''state'' = None \<and> length row \<le> 1 \<longrightarrow>
        wh_state (warehouseOfRow columnMap row) = ''SUSPENDED'')
   \<and> (cell row columnMap ''state'' 1 = Some [] \<longrightarrow>
        wh_state (warehouseOfRow columnMap row) = ''SUSPENDED'')
   \<and> (columnMap ''name'' = None \<and> row = [] \<longrightarrow>
        wh_name (warehouseOfRow columnMap row) = [])
   \<and> (cell row columnMap ''name'' 0 = Some [] \<longrightarrow>
        wh_name (warehouseOfRow columnMap row) = [])"
proof (intro conjI impI ballI)
  have ne: "\<And>cm r. wh_state (warehouseOfRow cm r) \<noteq> []"
    unfolding wh_state_of_row by (rule or_string_nonempty) simp
  show "wh_state (warehouseOfRow columnMap row) \<noteq> []" by (rule ne)
  fix w assume w: "w \<in> set (pr_items (mapShowResultToWarehouses result))"
  show "wh_state w \<noteq> []"
  proof (cases "res_data result")
    case None
    then have "mapShowResultToWarehouses result = emptyPage"
      using mappers_degenerate(6) by blast
    with w show ?thesis by (simp add: emptyPage_def)
  next
    case (Some rows)
    show ?thesis
    proof (cases "res_resultSetMetaData result")
      case None
      then have "mapShowResultToWarehouses result = emptyPage"
        using mappers_degenerate(6) by blast
      with w show ?thesis by (simp add: emptyPage_def)
    next
      case (Some metaData)
      from w mapShowResultToWarehouses_Some [OF \<open>res_data result = Some rows\<close> Some]
      obtain r where "w = warehouseOfRow (buildColumnMap (md_rowType metaData)) r"
        by auto
      then show ?thesis by (simp add: ne)
    qed
  qed
next
  assume "columnMap ''state'' = None \<and> length row \<le> 1"
  then have "cell row columnMap ''state'' 1 = None" by (simp add: cell_def js_index_def)
  then show "wh_state (warehouseOfRow columnMap row) = ''SUSPENDED''"
    by (simp add: wh_state_of_row or_string_def)
next
  assume "cell row columnMap ''state'' 1 = Some []"
  then show "wh_state (warehouseOfRow columnMap row) = ''SUSPENDED''"
    by (simp add: wh_state_of_row or_string_def)
next
  assume "columnMap ''name'' = None \<and> row = []"
  then have "cell row columnMap ''name'' 0 = None" by (simp add: cell_def js_index_def)
  then show "wh_name (warehouseOfRow columnMap row) = []"
    by (simp add: wh_name_of_row or_empty_def)
next
  assume "cell row columnMap ''name'' 0 = Some []"
  then show "wh_name (warehouseOfRow columnMap row) = []"
    by (simp add: wh_name_of_row or_empty_def)
qed

text \<open>
  Rows with a missing and with an empty cell.
\<close>

theorem warehouse_state_default_witness:
  "pr_items (mapShowResultToWarehouses (showResult [''name''] [[''WH1'']] 1 None)) \<noteq> []
   \<and> wh_state (hd (pr_items (mapShowResultToWarehouses (showResult [''name''] [[''WH1'']] 1 None))))
       \<noteq> []
   \<and> (Map.empty :: string \<rightharpoonup> nat) ''state'' = None
   \<and> length [''WH1''] \<le> 1
   \<and> wh_state (warehouseOfRow Map.empty [''WH1'']) = ''SUSPENDED''
   \<and> cell [''WH2'', ''''] Map.empty ''state'' 1 = Some []
   \<and> wh_state (warehouseOfRow Map.empty [''WH2'', '''']) = ''SUSPENDED''
   \<and> (Map.empty :: string \<rightharpoonup> nat) ''name'' = None
   \<and> wh_name (warehouseOfRow Map.empty []) = []
   \<and> cell ['''', ''STARTED''] Map.empty ''name'' 0 = Some []
   \<and> wh_name (warehouseOfRow Map.empty ['''', ''STARTED'']) = []"
proof -
  let ?r = "showResult [''name''] [[''WH1'']] 1 None"
  have i: "pr_items (mapShowResultToWarehouses ?r) \<noteq> []"
    by (simp add: showResult_def mapShowResultToWarehouses_def Let_def)
  then have mem: "hd (pr_items (mapShowResultToWarehouses ?r))
      \<in> set (pr_items (mapShowResultToWarehouses ?r))"
    by (rule hd_in_set)
  have h1: "(Map.empty :: string \<rightharpoonup> nat) ''state'' = None" by simp
  have h2: "length [''WH1''] \<le> 1" by simp
  have h3: "cell [''WH2'', ''''] Map.empty ''state'' 1 = Some []"
    by (simp add: cell_def js_index_def)
  have h4: "(Map.empty :: string \<rightharpoonup> nat) ''name'' = None" by simp
  have h5: "cell ['''', ''STARTED''] Map.empty ''name'' 0 = Some []"
    by (simp add: cell_def js_index_def)
  note t = warehouse_state_default
  note t1 = t [where result = ?r, THEN conjunct1, THEN bspec, OF mem]
  note t3 = t [where columnMap = Map.empty and row = "[''WH1'']",
      THEN conjunct2, THEN conjunct2, THEN conjunct1, THEN mp, OF conjI [OF h1 h2]]
  note t4 = t [where columnMap = Map.empty and row = "[''WH2'', '''']",
      THEN conjunct2, THEN conjunct2, THEN conjunct2, THEN conjunct1, THEN mp, OF h3]
  note t5 = t [where columnMap = Map.empty and row = "[]",
      THEN conjunct2, THEN conjunct2, THEN conjunct2, THEN conjunct2, THEN conjunct1,
      THEN mp, OF conjI [OF h4 refl]]
  note t6 = t [where columnMap = Map.empty and row = "['''', ''STARTED'']",
      THEN conjunct2, THEN conjunct2, THEN conjunct2, THEN conjunct2, THEN conjunct2,
      THEN mp, OF h5]
  show ?thesis
    by (intro conjI) (fact i t1 h1 h2 t3 h3 t4 h4 t5 h5 t6)+
qed

end
